theory Spec2Isabelle
  imports Complex_Main
begin

section \<open>Vectors (src/utils/math.ts)\<close>

text \<open>
  TypeScript numbers that hold coordinates, speeds and momentum are modelled as reals;
  numbers that only ever hold whole values in the engine (hp, energy, cooldowns, tick
  counters, damage) are modelled as integers.  Fields that several interfaces share
  (id, position, active, ...) carry a short prefix, since record fields live in one
  name space.
\<close>

record Vec2 =
  vx :: real
  vy :: real

definition vec2 :: "real \<Rightarrow> real \<Rightarrow> Vec2" where
  "vec2 a b = \<lparr>vx = a, vy = b\<rparr>"

definition sub :: "Vec2 \<Rightarrow> Vec2 \<Rightarrow> Vec2" where
  "sub a b = \<lparr>vx = vx a - vx b, vy = vy a - vy b\<rparr>"

definition length_v :: "Vec2 \<Rightarrow> real" where
  "length_v v = sqrt (vx v * vx v + vy v * vy v)"

definition distance :: "Vec2 \<Rightarrow> Vec2 \<Rightarrow> real" where
  "distance a b = length_v (sub a b)"

definition normalize :: "Vec2 \<Rightarrow> Vec2" where
  "normalize v =
     (let len = length_v v
      in if len = 0 then \<lparr>vx = 0, vy = 0\<rparr> else \<lparr>vx = vx v / len, vy = vy v / len\<rparr>)"

definition dot :: "Vec2 \<Rightarrow> Vec2 \<Rightarrow> real" where
  "dot a b = vx a * vx b + vy a * vy b"

definition clamp :: "real \<Rightarrow> real \<Rightarrow> real \<Rightarrow> real" where
  "clamp v lo hi = max lo (min hi v)"

record Circle =
  c_position :: Vec2
  c_radius :: real

definition lineSegmentIntersectsCircle :: "Vec2 \<Rightarrow> Vec2 \<Rightarrow> Vec2 \<Rightarrow> real \<Rightarrow> bool" where
  "lineSegmentIntersectsCircle p1 p2 center radius =
     (let d = sub p2 p1;
          f = sub p1 center;
          lenSq = dot d d
      in if lenSq = 0 then length_v f \<le> radius
         else (let t = clamp (- dot f d / lenSq) 0 1;
                   closest = \<lparr>vx = vx p1 + t * vx d, vy = vy p1 + t * vy d\<rparr>
               in distance closest center \<le> radius))"

definition isInFieldOfView :: "Vec2 \<Rightarrow> Vec2 \<Rightarrow> Vec2 \<Rightarrow> real \<Rightarrow> bool" where
  "isInFieldOfView fc from to fovDegrees =
     (let dir = sub to from;
          len = length_v dir
      in if len = 0 then True
         else (let normalized = \<lparr>vx = vx dir / len, vy = vy dir / len\<rparr>;
                   halfFovCos = cos ((fovDegrees / 2) * pi / 180)
               in dot fc normalized \<ge> halfFovCos))"

definition hasLineOfSight :: "Vec2 \<Rightarrow> Vec2 \<Rightarrow> Circle list \<Rightarrow> bool" where
  "hasLineOfSight from to obstacles =
     (\<not> list_ex (\<lambda>ob. lineSegmentIntersectsCircle from to (c_position ob) (c_radius ob)) obstacles)"

section \<open>Constants (src/utils/constants.ts)\<close>

definition ARENA_SIZE :: real where "ARENA_SIZE = 40"
definition ARENA_HALF :: real where "ARENA_HALF = ARENA_SIZE / 2"
definition MAX_TICKS :: int where "MAX_TICKS = 2400"

definition BOT_HP :: int where "BOT_HP = 1000"
definition BOT_ENERGY :: int where "BOT_ENERGY = 100"
definition BOT_RADIUS :: real where "BOT_RADIUS = 1.0"
definition BOT_SPEED :: real where "BOT_SPEED = 0.3"
definition ENERGY_REGEN :: int where "ENERGY_REGEN = 1"
definition BOT_FOV :: real where "BOT_FOV = 160"

definition MELEE_DAMAGE :: int where "MELEE_DAMAGE = 9"
definition MELEE_ENERGY :: int where "MELEE_ENERGY = 12"
definition MELEE_COOLDOWN :: int where "MELEE_COOLDOWN = 10"
definition MELEE_RANGE :: real where "MELEE_RANGE = 2.0"

definition RANGED_DAMAGE :: int where "RANGED_DAMAGE = 8"
definition RANGED_ENERGY :: int where "RANGED_ENERGY = 14"
definition RANGED_COOLDOWN :: int where "RANGED_COOLDOWN = 15"
definition PROJECTILE_SPEED :: real where "PROJECTILE_SPEED = 0.8"

definition SPECIAL_DAMAGE :: int where "SPECIAL_DAMAGE = 12"
definition SPECIAL_ENERGY :: int where "SPECIAL_ENERGY = 40"
definition SPECIAL_COOLDOWN :: int where "SPECIAL_COOLDOWN = 50"
definition SPECIAL_RANGE :: real where "SPECIAL_RANGE = 8.0"

definition DEFEND_ENERGY_PER_TICK :: int where "DEFEND_ENERGY_PER_TICK = 3"
definition DEFEND_REDUCTION :: real where "DEFEND_REDUCTION = 0.35"

definition DASH_ENERGY :: int where "DASH_ENERGY = 15"
definition DASH_COOLDOWN :: int where "DASH_COOLDOWN = 12"
definition DASH_DISTANCE :: real where "DASH_DISTANCE = 5"

definition HEAL_AMOUNT :: int where "HEAL_AMOUNT = 15"
definition HEAL_ENERGY :: int where "HEAL_ENERGY = 30"
definition HEAL_COOLDOWN :: int where "HEAL_COOLDOWN = 40"

definition TRAP_DAMAGE :: int where "TRAP_DAMAGE = 10"
definition TRAP_ENERGY :: int where "TRAP_ENERGY = 20"
definition TRAP_COOLDOWN :: int where "TRAP_COOLDOWN = 25"
definition TRAP_RADIUS :: real where "TRAP_RADIUS = 1.5"
definition TRAP_MAX_PER_BOT :: nat where "TRAP_MAX_PER_BOT = 2"
definition TRAP_SLOW_DURATION :: int where "TRAP_SLOW_DURATION = 30"
definition TRAP_LIFETIME :: int where "TRAP_LIFETIME = 400"

definition MELEE_COMMIT_TICKS :: int where "MELEE_COMMIT_TICKS = 3"
definition SPECIAL_COMMIT_TICKS :: int where "SPECIAL_COMMIT_TICKS = 4"
definition COMMIT_SPEED_MULT :: real where "COMMIT_SPEED_MULT = 0.15"

definition OOC_REGEN_DELAY :: int where "OOC_REGEN_DELAY = 40"
definition OOC_REGEN_RATE :: int where "OOC_REGEN_RATE = 2"

definition MOMENTUM_BUILDUP :: real where "MOMENTUM_BUILDUP = 0.12"
definition MOMENTUM_DECAY :: real where "MOMENTUM_DECAY = 0.5"
definition MOMENTUM_MAX_BONUS :: real where "MOMENTUM_MAX_BONUS = 0.5"

definition BURN_DAMAGE :: int where "BURN_DAMAGE = 1"
definition BURN_DURATION :: int where "BURN_DURATION = 20"

definition PICKUP_INTERVAL :: int where "PICKUP_INTERVAL = 100"
definition MAX_PICKUPS :: nat where "MAX_PICKUPS = 3"
definition HEALTH_PICKUP_AMOUNT :: int where "HEALTH_PICKUP_AMOUNT = 20"
definition ENERGY_PICKUP_AMOUNT :: int where "ENERGY_PICKUP_AMOUNT = 30"
definition PICKUP_RADIUS :: real where "PICKUP_RADIUS = 0.8"

definition DEFAULT_OBSTACLES :: "Circle list" where
  "DEFAULT_OBSTACLES =
     [\<lparr>c_position = vec2 (-8) 0, c_radius = 2.0\<rparr>,
      \<lparr>c_position = vec2 8 5, c_radius = 1.5\<rparr>,
      \<lparr>c_position = vec2 5 (-8), c_radius = 1.8\<rparr>]"

definition TERRAIN_SLOPE_MAX :: real where "TERRAIN_SLOPE_MAX = 0.6"

section \<open>Data model (src/engine/types.ts)\<close>

datatype Action = Melee | Ranged | Special | Defend | Dash | Heal | Trap

record BotAction =
  move :: Vec2
  aim :: Vec2
  action :: "Action option"

record Cooldowns =
  melee :: int
  ranged :: int
  special :: int
  dash :: int
  heal :: int
  trap :: int

record Status =
  burning :: int
  slowed :: int
  shielded :: bool
  attackCommit :: int

record BotData =
  bid :: nat
  bname :: string
  hp :: int
  energy :: int
  position :: Vec2
  facing :: Vec2
  velocity :: Vec2
  cooldowns :: Cooldowns
  status :: Status
  lastCombatTick :: int
  momentum :: real
  isDefending :: bool
  lastAction :: "BotAction option"
  damageDealt :: int
  damageTaken :: int
  actionsUsed :: "string \<Rightarrow> int option"

record Projectile =
  pr_id :: nat
  pr_ownerId :: nat
  pr_position :: Vec2
  pr_velocity :: Vec2
  pr_damage :: int
  pr_lifetime :: int

datatype PickupType = health | energy_pk

record Pickup =
  pk_id :: nat
  pk_position :: Vec2
  pk_type :: PickupType
  pk_active :: bool

record TrapData =
  tr_id :: nat
  tr_ownerId :: nat
  tr_position :: Vec2
  tr_lifetime :: int
  tr_active :: bool

datatype EventType =
    melee_hit | ranged_fire | ranged_hit | special_use | special_hit
  | defend_start | defend_end | pickup | burn_tick | ko | miss
  | dash_use | heal_use | trap_place | trap_trigger
  | lost_sight | gained_sight

record GameEvent =
  ev_type :: EventType
  attacker :: "nat option"
  target :: "nat option"
  damage :: "int option"
  ev_position :: "Vec2 option"
  ev_text :: string

record ObstacleData =
  ob_position :: Vec2
  ob_radius :: real

record TerrainData =
  heightmap :: "real list"
  resolution :: int
  arenaSize :: real

record ArenaConfig =
  obstacles :: "ObstacleData list"
  terrain :: TerrainData
  spawnPoints :: "Vec2 \<times> Vec2"

record GameState =
  bots :: "BotData list"
  projectiles :: "Projectile list"
  pickups :: "Pickup list"
  traps :: "TrapData list"
  tick :: int
  events :: "GameEvent list"
  gameOver :: bool
  winner :: "nat option"
  arenaConfig :: "ArenaConfig option"
  lastKnownEnemyPos :: "Vec2 list"
  enemyVisible :: "bool list"
  nextProjectileId :: nat
  nextPickupId :: nat
  nextTrapId :: nat

section \<open>Rendering numbers inside event texts\<close>

text \<open>
  The event texts are template strings; a number inside one is rendered as JavaScript
  renders a whole number, in decimal with a leading minus sign when negative.
\<close>

definition digit_char :: "nat \<Rightarrow> char" where
  "digit_char n = ''0123456789'' ! n"

fun showNat :: "nat \<Rightarrow> string" where
  "showNat n = (if n < 10 then [digit_char n] else showNat (n div 10) @ [digit_char (n mod 10)])"

declare showNat.simps [simp del]

definition showInt :: "int \<Rightarrow> string" where
  "showInt i = (if i < 0 then CHR ''-'' # showNat (nat (- i)) else showNat (nat i))"

definition pickupTypeName :: "PickupType \<Rightarrow> string" where
  "pickupTypeName t = (case t of health \<Rightarrow> ''health'' | energy_pk \<Rightarrow> ''energy'')"

section \<open>Entity store helpers\<close>

text \<open>
  The engine holds references to the bot objects of \<open>state.bots\<close> and mutates them in
  place.  In the model a bot is addressed by its index in the list, and a mutation is
  an update of the list at that index.
\<close>

definition updBot :: "nat \<Rightarrow> (BotData \<Rightarrow> BotData) \<Rightarrow> GameState \<Rightarrow> GameState" where
  "updBot i f s = s\<lparr>bots := (bots s)[i := f (bots s ! i)]\<rparr>"

definition pushEvent :: "GameEvent \<Rightarrow> GameState \<Rightarrow> GameState" where
  "pushEvent e s = s\<lparr>events := events s @ [e]\<rparr>"

text \<open>\<open>Array.prototype.findIndex\<close>: the index of the first element satisfying the predicate.\<close>

fun findIndex :: "('a \<Rightarrow> bool) \<Rightarrow> 'a list \<Rightarrow> nat option" where
  "findIndex P [] = None"
| "findIndex P (a # as) =
     (if P a then Some 0 else (case findIndex P as of None \<Rightarrow> None | Some k \<Rightarrow> Some (Suc k)))"

text \<open>\<open>Math.round\<close>: the nearest whole number, halves rounded up.\<close>

definition js_round :: "real \<Rightarrow> int" where
  "js_round r = \<lfloor>r + 1 / 2\<rfloor>"

definition bumpUsed :: "string \<Rightarrow> BotData \<Rightarrow> BotData" where
  "bumpUsed k b =
     b\<lparr>actionsUsed := (actionsUsed b)(k \<mapsto> (case actionsUsed b k of None \<Rightarrow> 0 | Some c \<Rightarrow> c) + 1)\<rparr>"

definition addProjectile :: "nat \<Rightarrow> Vec2 \<Rightarrow> Vec2 \<Rightarrow> int \<Rightarrow> GameState \<Rightarrow> GameState" where
  "addProjectile ownerId pos vel dmg s =
     s\<lparr>projectiles := projectiles s @
          [\<lparr>pr_id = nextProjectileId s, pr_ownerId = ownerId, pr_position = pos,
            pr_velocity = vel, pr_damage = dmg, pr_lifetime = 60\<rparr>],
       nextProjectileId := nextProjectileId s + 1\<rparr>"

definition addTrap :: "nat \<Rightarrow> Vec2 \<Rightarrow> GameState \<Rightarrow> GameState" where
  "addTrap ownerId pos s =
     s\<lparr>traps := traps s @
          [\<lparr>tr_id = nextTrapId s, tr_ownerId = ownerId, tr_position = pos,
            tr_lifetime = 0, tr_active = True\<rparr>],
       nextTrapId := nextTrapId s + 1\<rparr>"

section \<open>Action resolver (src/engine/Combat.ts)\<close>

definition decPos :: "int \<Rightarrow> int" where
  "decPos c = (if c > 0 then c - 1 else c)"

definition mkEvent ::
  "EventType \<Rightarrow> nat option \<Rightarrow> nat option \<Rightarrow> int option \<Rightarrow> Vec2 option \<Rightarrow> string \<Rightarrow> GameEvent" where
  "mkEvent ty a t d p txt =
     \<lparr>ev_type = ty, attacker = a, target = t, damage = d, ev_position = p, ev_text = txt\<rparr>"

text \<open>
  The first half of \<open>processAction\<close> only touches the acting bot.  Its statements, in
  the order of the source: reset of the defend flags, cooldown countdown, commit
  countdown, energy regeneration, burn damage, slow countdown, out-of-combat
  regeneration.  \<open>upkeep\<close> runs them in that order, with \<open>t\<close> the current tick.
\<close>

definition resetDefending :: "BotData \<Rightarrow> BotData" where
  "resetDefending b = b\<lparr>isDefending := False, status := (status b)\<lparr>shielded := False\<rparr>\<rparr>"

definition tickCooldowns :: "BotData \<Rightarrow> BotData" where
  "tickCooldowns b =
     b\<lparr>cooldowns :=
         \<lparr>melee = decPos (melee (cooldowns b)),
          ranged = decPos (ranged (cooldowns b)),
          special = decPos (special (cooldowns b)),
          dash = decPos (dash (cooldowns b)),
          heal = decPos (heal (cooldowns b)),
          trap = decPos (trap (cooldowns b))\<rparr>\<rparr>"

definition tickCommit :: "BotData \<Rightarrow> BotData" where
  "tickCommit b = b\<lparr>status := (status b)\<lparr>attackCommit := decPos (attackCommit (status b))\<rparr>\<rparr>"

definition regenEnergy :: "BotData \<Rightarrow> BotData" where
  "regenEnergy b = b\<lparr>energy := min 100 (energy b + ENERGY_REGEN)\<rparr>"

definition burnTick :: "int \<Rightarrow> BotData \<Rightarrow> BotData" where
  "burnTick t b =
     (if burning (status b) > 0
      then b\<lparr>status := (status b)\<lparr>burning := burning (status b) - 1\<rparr>,
             hp := hp b - BURN_DAMAGE,
             damageTaken := damageTaken b + BURN_DAMAGE,
             lastCombatTick := t\<rparr>
      else b)"

definition tickSlowed :: "BotData \<Rightarrow> BotData" where
  "tickSlowed b = b\<lparr>status := (status b)\<lparr>slowed := decPos (slowed (status b))\<rparr>\<rparr>"

definition oocRegen :: "int \<Rightarrow> BotData \<Rightarrow> BotData" where
  "oocRegen t b =
     (if burning (status b) = 0 \<and> t - lastCombatTick b \<ge> OOC_REGEN_DELAY
      then b\<lparr>hp := min BOT_HP (hp b + OOC_REGEN_RATE)\<rparr>
      else b)"

definition upkeep :: "int \<Rightarrow> BotData \<Rightarrow> BotData" where
  "upkeep t b =
     oocRegen t (tickSlowed (burnTick t (regenEnergy (tickCommit (tickCooldowns (resetDefending b))))))"

definition defendedDamage :: "bool \<Rightarrow> int \<Rightarrow> int" where
  "defendedDamage defending dmg =
     (if defending then js_round (real_of_int dmg * DEFEND_REDUCTION) else dmg)"

definition processMelee :: "nat \<Rightarrow> nat \<Rightarrow> GameState \<Rightarrow> GameState" where
  "processMelee i j s =
     (if melee (cooldowns (bots s ! i)) > 0 \<or> energy (bots s ! i) < MELEE_ENERGY then s
      else
        (let s1 = updBot i (\<lambda>b. bumpUsed ''melee''
                     (b\<lparr>energy := energy b - MELEE_ENERGY,
                        cooldowns := (cooldowns b)\<lparr>melee := MELEE_COOLDOWN\<rparr>\<rparr>)) s;
             s2 = updBot i (\<lambda>b. b\<lparr>status := (status b)\<lparr>attackCommit := MELEE_COMMIT_TICKS\<rparr>,
                                    momentum := 0\<rparr>) s1;
             bot = bots s2 ! i;
             enemy = bots s2 ! j;
             dist = distance (position bot) (position enemy)
         in if dist > MELEE_RANGE
            then pushEvent (mkEvent miss (Some (bid bot)) None None (Some (position bot))
                              (bname bot @ '' swings and misses!'')) s2
            else
              (let toEnemy = normalize (sub (position enemy) (position bot));
                   facingDot = dot (facing bot) toEnemy
               in if facingDot < 0.3
                  then pushEvent (mkEvent miss (Some (bid bot)) None None (Some (position bot))
                                    (bname bot @ '' swings in the wrong direction!'')) s2
                  else
                    (let dmg = defendedDamage (isDefending enemy) MELEE_DAMAGE;
                         now = tick s2;
                         s3 = updBot j (\<lambda>e. e\<lparr>hp := hp e - dmg\<rparr>) s2;
                         s4 = updBot i (\<lambda>b. b\<lparr>damageDealt := damageDealt b + dmg\<rparr>) s3;
                         s5 = updBot j (\<lambda>e. e\<lparr>damageTaken := damageTaken e + dmg\<rparr>) s4;
                         s6 = updBot i (\<lambda>b. b\<lparr>lastCombatTick := now\<rparr>) s5;
                         s7 = updBot j (\<lambda>e. e\<lparr>lastCombatTick := now\<rparr>) s6
                     in pushEvent (mkEvent melee_hit (Some (bid bot)) (Some (bid enemy)) (Some dmg)
                                     (Some (position enemy))
                                     (bname bot @ '' hits '' @ bname enemy @ '' for '' @ showInt dmg
                                        @ '' melee damage!'')) s7))))"

definition processRanged :: "nat \<Rightarrow> nat \<Rightarrow> GameState \<Rightarrow> GameState" where
  "processRanged i j s =
     (if ranged (cooldowns (bots s ! i)) > 0 \<or> energy (bots s ! i) < RANGED_ENERGY then s
      else
        (let s1 = updBot i (\<lambda>b. bumpUsed ''ranged''
                     (b\<lparr>energy := energy b - RANGED_ENERGY,
                        cooldowns := (cooldowns b)\<lparr>ranged := RANGED_COOLDOWN\<rparr>\<rparr>)) s;
             bot = bots s1 ! i;
             vel = \<lparr>vx = vx (facing bot) * PROJECTILE_SPEED, vy = vy (facing bot) * PROJECTILE_SPEED\<rparr>;
             s2 = addProjectile (bid bot) (position bot) vel RANGED_DAMAGE s1
         in pushEvent (mkEvent ranged_fire (Some (bid bot)) None None (Some (position bot))
                         (bname bot @ '' fires a shot!'')) s2))"

definition processSpecial :: "nat \<Rightarrow> nat \<Rightarrow> GameState \<Rightarrow> GameState" where
  "processSpecial i j s =
     (if special (cooldowns (bots s ! i)) > 0 \<or> energy (bots s ! i) < SPECIAL_ENERGY then s
      else
        (let s1 = updBot i (\<lambda>b. bumpUsed ''special''
                     (b\<lparr>energy := energy b - SPECIAL_ENERGY,
                        cooldowns := (cooldowns b)\<lparr>special := SPECIAL_COOLDOWN\<rparr>\<rparr>)) s;
             s2 = updBot i (\<lambda>b. b\<lparr>status := (status b)\<lparr>attackCommit := SPECIAL_COMMIT_TICKS\<rparr>,
                                    momentum := 0\<rparr>) s1;
             bot = bots s2 ! i;
             enemy = bots s2 ! j;
             dist = distance (position bot) (position enemy);
             s3 = pushEvent (mkEvent special_use (Some (bid bot)) None None (Some (position bot))
                               (bname bot @ '' unleashes a SPECIAL attack!'')) s2
         in if dist \<le> SPECIAL_RANGE
            then
              (let dmg = defendedDamage (isDefending enemy) SPECIAL_DAMAGE;
                   now = tick s3;
                   s4 = updBot j (\<lambda>e. e\<lparr>hp := hp e - dmg,
                                          status := (status e)\<lparr>burning := BURN_DURATION\<rparr>\<rparr>) s3;
                   s5 = updBot i (\<lambda>b. b\<lparr>damageDealt := damageDealt b + dmg\<rparr>) s4;
                   s6 = updBot j (\<lambda>e. e\<lparr>damageTaken := damageTaken e + dmg\<rparr>) s5;
                   s7 = updBot i (\<lambda>b. b\<lparr>lastCombatTick := now\<rparr>) s6;
                   s8 = updBot j (\<lambda>e. e\<lparr>lastCombatTick := now\<rparr>) s7
               in pushEvent (mkEvent special_hit (Some (bid bot)) (Some (bid enemy)) (Some dmg)
                               (Some (position enemy))
                               (bname bot @ [CHR 0x27] @ ''s special HITS '' @ bname enemy @ '' for ''
                                  @ showInt dmg @ ''! '' @ bname enemy @ '' is BURNING!'')) s8)
            else s3))"

definition processDefend :: "nat \<Rightarrow> GameState \<Rightarrow> GameState" where
  "processDefend i s =
     (if energy (bots s ! i) < DEFEND_ENERGY_PER_TICK then s
      else updBot i (\<lambda>b. bumpUsed ''defend''
             (b\<lparr>energy := energy b - DEFEND_ENERGY_PER_TICK,
                isDefending := True,
                status := (status b)\<lparr>shielded := True\<rparr>\<rparr>)) s)"

definition processDash :: "nat \<Rightarrow> GameState \<Rightarrow> GameState" where
  "processDash i s =
     (if dash (cooldowns (bots s ! i)) > 0 \<or> energy (bots s ! i) < DASH_ENERGY then s
      else
        (let s1 = updBot i (\<lambda>b. bumpUsed ''dash''
                     (b\<lparr>energy := energy b - DASH_ENERGY,
                        cooldowns := (cooldowns b)\<lparr>dash := DASH_COOLDOWN\<rparr>\<rparr>)) s;
             s2 = updBot i (\<lambda>b. b\<lparr>position :=
                       \<lparr>vx = vx (position b) + vx (facing b) * DASH_DISTANCE,
                        vy = vy (position b) + vy (facing b) * DASH_DISTANCE\<rparr>\<rparr>) s1;
             bot = bots s2 ! i
         in pushEvent (mkEvent dash_use (Some (bid bot)) None None (Some (position bot))
                         (bname bot @ '' dashes forward!'')) s2))"

definition processHeal :: "nat \<Rightarrow> GameState \<Rightarrow> GameState" where
  "processHeal i s =
     (if heal (cooldowns (bots s ! i)) > 0 \<or> energy (bots s ! i) < HEAL_ENERGY then s
      else
        (let s1 = updBot i (\<lambda>b. bumpUsed ''heal''
                     (b\<lparr>energy := energy b - HEAL_ENERGY,
                        cooldowns := (cooldowns b)\<lparr>heal := HEAL_COOLDOWN\<rparr>\<rparr>)) s;
             healed = min HEAL_AMOUNT (BOT_HP - hp (bots s1 ! i));
             s2 = updBot i (\<lambda>b. b\<lparr>hp := min BOT_HP (hp b + HEAL_AMOUNT)\<rparr>) s1;
             bot = bots s2 ! i
         in pushEvent (mkEvent heal_use (Some (bid bot)) None (Some healed) (Some (position bot))
                         (bname bot @ '' heals for '' @ showInt healed @ '' HP!'')) s2))"

definition processTrap :: "nat \<Rightarrow> GameState \<Rightarrow> GameState" where
  "processTrap i s =
     (if trap (cooldowns (bots s ! i)) > 0 \<or> energy (bots s ! i) < TRAP_ENERGY then s
      else
        (let activeTraps =
               length (filter (\<lambda>t. tr_ownerId t = bid (bots s ! i) \<and> tr_active t) (traps s))
         in if activeTraps \<ge> TRAP_MAX_PER_BOT then s
            else
              (let s1 = updBot i (\<lambda>b. bumpUsed ''trap''
                           (b\<lparr>energy := energy b - TRAP_ENERGY,
                              cooldowns := (cooldowns b)\<lparr>trap := TRAP_COOLDOWN\<rparr>\<rparr>)) s;
                   bot = bots s1 ! i;
                   s2 = addTrap (bid bot) (position bot) s1
               in pushEvent (mkEvent trap_place (Some (bid bot)) None None (Some (position bot))
                               (bname bot @ '' placed a trap!'')) s2)))"

text \<open>
  \<open>processAction\<close>: the upkeep of the acting bot with its burn event, then the dispatch
  to the handler of the requested action, with the first bot of another id as enemy.
\<close>

definition upkeepStage :: "nat \<Rightarrow> GameState \<Rightarrow> GameState" where
  "upkeepStage i s =
     (let b0 = bots s ! i;
          s1 = updBot i (\<lambda>b. upkeep (tick s) b) s
      in if burning (status b0) > 0
         then pushEvent (mkEvent burn_tick None (Some (bid b0)) (Some BURN_DAMAGE)
                           (Some (position b0))
                           (bname b0 @ '' is burning! -'' @ showInt BURN_DAMAGE)) s1
         else s1)"

definition processAction :: "nat \<Rightarrow> Action option \<Rightarrow> GameState \<Rightarrow> GameState" where
  "processAction i act s =
     (let s2 = upkeepStage i s
      in case act of
           None \<Rightarrow> s2
         | Some a \<Rightarrow>
             (case findIndex (\<lambda>b. bid b \<noteq> bid (bots s2 ! i)) (bots s2) of
                None \<Rightarrow> s2
              | Some j \<Rightarrow>
                  (case a of
                     Melee \<Rightarrow> processMelee i j s2
                   | Ranged \<Rightarrow> processRanged i j s2
                   | Special \<Rightarrow> processSpecial i j s2
                   | Defend \<Rightarrow> processDefend i s2
                   | Dash \<Rightarrow> processDash i s2
                   | Heal \<Rightarrow> processHeal i s2
                   | Trap \<Rightarrow> processTrap i s2)))"

text \<open>
  \<open>processProjectileHits\<close>: for each projectile, the first bot in list order that is not
  its owner and lies within 1.3 of it is hit, and the projectile is dropped.
\<close>

definition projectileHit :: "Projectile \<Rightarrow> nat \<Rightarrow> GameState \<Rightarrow> GameState" where
  "projectileHit proj k s =
     (let bot = bots s ! k;
          dmg = defendedDamage (isDefending bot) (pr_damage proj);
          now = tick s;
          s1 = updBot k (\<lambda>b. b\<lparr>hp := hp b - dmg, damageTaken := damageTaken b + dmg,
                                lastCombatTick := now\<rparr>) s;
          att = findIndex (\<lambda>b. bid b = pr_ownerId proj) (bots s1);
          s2 = (case att of None \<Rightarrow> s1
                | Some a \<Rightarrow> updBot a (\<lambda>b. b\<lparr>damageDealt := damageDealt b + dmg,
                                                lastCombatTick := now\<rparr>) s1);
          attName = (case att of None \<Rightarrow> ''undefined'' | Some a \<Rightarrow> bname (bots s2 ! a))
      in pushEvent (mkEvent ranged_hit (Some (pr_ownerId proj)) (Some (bid bot)) (Some dmg)
                      (Some (pr_position proj))
                      (attName @ [CHR 0x27] @ ''s shot hits '' @ bname bot @ '' for ''
                         @ showInt dmg @ ''!'')) s2)"

definition projectileStep :: "Projectile list \<times> GameState \<Rightarrow> Projectile \<Rightarrow> Projectile list \<times> GameState" where
  "projectileStep acc proj =
     (let remaining = fst acc; s = snd acc
      in case findIndex (\<lambda>b. bid b \<noteq> pr_ownerId proj \<and> distance (pr_position proj) (position b) < 1.3)
                (bots s) of
           None \<Rightarrow> (remaining @ [proj], s)
         | Some k \<Rightarrow> (remaining, projectileHit proj k s))"

definition processProjectileHits :: "GameState \<Rightarrow> GameState" where
  "processProjectileHits s =
     (let r = foldl projectileStep ([], s) (projectiles s)
      in (snd r)\<lparr>projectiles := fst r\<rparr>)"

text \<open>\<open>checkKO\<close>: the loop body for the bot at index \<open>k\<close>, and the loop over all bots.\<close>

definition koStep :: "GameState \<Rightarrow> nat \<Rightarrow> GameState" where
  "koStep s k =
     (let bot = bots s ! k
      in if hp bot \<le> 0
         then
           (let s1 = updBot k (\<lambda>b. b\<lparr>hp := 0\<rparr>) s;
                s2 = s1\<lparr>gameOver := True\<rparr>;
                s3 = s2\<lparr>winner :=
                        (case List.find (\<lambda>b. bid b \<noteq> bid bot) (bots s2) of
                           None \<Rightarrow> None | Some w \<Rightarrow> Some (bid w))\<rparr>
            in pushEvent (mkEvent ko None (Some (bid bot)) None None
                            (bname bot @ '' has been KNOCKED OUT!'')) s3)
         else s)"

definition checkKO :: "GameState \<Rightarrow> GameState" where
  "checkKO s = foldl koStep s [0..<length (bots s)]"

section \<open>Terrain sampling (src/arena/ArenaGenerator.ts)\<close>

text \<open>
  A read of the height map.  The indices passed by \<open>sampleTerrainHeight\<close> are clamped to
  \<open>0 .. resolution - 1\<close>, so for a height map of \<open>resolution * resolution\<close> cells every
  read is in range; a read outside the array (\<open>undefined\<close> in the source) is \<open>0\<close> here.
\<close>

definition hmAt :: "real list \<Rightarrow> int \<Rightarrow> real" where
  "hmAt hm k = (if 0 \<le> k \<and> nat k < length hm then hm ! nat k else 0)"

definition sampleTerrainHeight :: "TerrainData \<Rightarrow> real \<Rightarrow> real \<Rightarrow> real" where
  "sampleTerrainHeight tr wx wy =
     (let res = resolution tr;
          gx = ((wx / arenaSize tr) + 0.5) * real_of_int (res - 1);
          gy = ((wy / arenaSize tr) + 0.5) * real_of_int (res - 1);
          ix = \<lfloor>gx\<rfloor>;
          iy = \<lfloor>gy\<rfloor>;
          fx = gx - real_of_int ix;
          fy = gy - real_of_int iy;
          ix0 = max 0 (min (res - 1) ix);
          ix1 = max 0 (min (res - 1) (ix + 1));
          iy0 = max 0 (min (res - 1) iy);
          iy1 = max 0 (min (res - 1) (iy + 1));
          h00 = hmAt (heightmap tr) (iy0 * res + ix0);
          h10 = hmAt (heightmap tr) (iy0 * res + ix1);
          h01 = hmAt (heightmap tr) (iy1 * res + ix0);
          h11 = hmAt (heightmap tr) (iy1 * res + ix1)
      in h00 * (1 - fx) * (1 - fy) + h10 * fx * (1 - fy) + h01 * (1 - fx) * fy + h11 * fx * fy)"

definition sampleTerrainSlope :: "TerrainData \<Rightarrow> real \<Rightarrow> real \<Rightarrow> real" where
  "sampleTerrainSlope tr wx wy =
     (let d = 0.5;
          hL = sampleTerrainHeight tr (wx - d) wy;
          hR = sampleTerrainHeight tr (wx + d) wy;
          hD = sampleTerrainHeight tr wx (wy - d);
          hU = sampleTerrainHeight tr wx (wy + d);
          dx = (hR - hL) / (2 * d);
          dy = (hU - hD) / (2 * d)
      in sqrt (dx * dx + dy * dy))"

section \<open>Movement and collisions (src/engine/Physics.ts)\<close>

definition obstacleCircles :: "ArenaConfig option \<Rightarrow> Circle list" where
  "obstacleCircles cfg =
     (case cfg of
        None \<Rightarrow> DEFAULT_OBSTACLES
      | Some c \<Rightarrow> map (\<lambda>ob. \<lparr>c_position = ob_position ob, c_radius = ob_radius ob\<rparr>) (obstacles c))"

definition applyMovement :: "BotData \<Rightarrow> Vec2 \<Rightarrow> TerrainData option \<Rightarrow> BotData" where
  "applyMovement bt mv terrainOpt =
     (let mag = sqrt (vx mv * vx mv + vy mv * vy mv);
          mx = (if mag > 1 then vx mv / mag else vx mv);
          my = (if mag > 1 then vy mv / mag else vy mv);
          speed0 = (if slowed (status bt) > 0 then BOT_SPEED * 0.5 else BOT_SPEED);
          speed1 =
            (case terrainOpt of
               None \<Rightarrow> speed0
             | Some tr \<Rightarrow>
                 (let slope = sampleTerrainSlope tr (vx (position bt)) (vy (position bt))
                  in if slope > TERRAIN_SLOPE_MAX then speed0 * 0.1
                     else if slope > 0.1 then
                       (let hCurrent = sampleTerrainHeight tr (vx (position bt)) (vy (position bt));
                            hAhead = sampleTerrainHeight tr (vx (position bt) + mx * 0.5)
                                       (vy (position bt) + my * 0.5)
                        in if hAhead > hCurrent then speed0 * max 0.4 (1.0 - slope * 0.8)
                           else speed0 * min 1.4 (1.0 + slope * 0.3))
                     else speed0));
          oldVelMag = sqrt (vx (velocity bt) * vx (velocity bt) + vy (velocity bt) * vy (velocity bt));
          newMoveMag = sqrt (mx * mx + my * my);
          momentum1 =
            (if oldVelMag > 0.01 \<and> newMoveMag > 0.01 then
               (let alignment = (vx (velocity bt) * mx + vy (velocity bt) * my) / (oldVelMag * newMoveMag)
                in if alignment > 0.7 then min 1.0 (momentum bt + MOMENTUM_BUILDUP)
                   else momentum bt * MOMENTUM_DECAY)
             else momentum bt * MOMENTUM_DECAY);
          speed2 = (if attackCommit (status bt) > 0 then speed1 * COMMIT_SPEED_MULT
                    else speed1 * (1.0 + momentum1 * MOMENTUM_MAX_BONUS));
          momentum2 = (if attackCommit (status bt) > 0 then 0 else momentum1);
          vel = \<lparr>vx = mx * speed2, vy = my * speed2\<rparr>
      in bt\<lparr>momentum := momentum2,
             velocity := vel,
             position := \<lparr>vx = vx (position bt) + vx vel, vy = vy (position bt) + vy vel\<rparr>\<rparr>)"

definition applyFacing :: "BotData \<Rightarrow> Vec2 \<Rightarrow> BotData" where
  "applyFacing bt am =
     (let len = sqrt (vx am * vx am + vy am * vy am)
      in if len > 0 then bt\<lparr>facing := \<lparr>vx = vx am / len, vy = vy am / len\<rparr>\<rparr> else bt)"

definition clampToBounds :: "BotData \<Rightarrow> BotData" where
  "clampToBounds bt =
     (let limit = ARENA_HALF - BOT_RADIUS
      in bt\<lparr>position := \<lparr>vx = max (- limit) (min limit (vx (position bt))),
                           vy = max (- limit) (min limit (vy (position bt)))\<rparr>\<rparr>)"

definition resolveBotCollision :: "nat \<Rightarrow> nat \<Rightarrow> GameState \<Rightarrow> GameState" where
  "resolveBotCollision ia ib s =
     (let a = bots s ! ia;
          b = bots s ! ib;
          dist = distance (position a) (position b);
          minDist = BOT_RADIUS * 2
      in if dist < minDist \<and> dist > 0 then
           (let dir = normalize (sub (position b) (position a));
                overlap = (minDist - dist) / 2;
                s1 = updBot ia (\<lambda>u. u\<lparr>position := \<lparr>vx = vx (position u) - vx dir * overlap,
                                                      vy = vy (position u) - vy dir * overlap\<rparr>\<rparr>) s
            in updBot ib (\<lambda>u. u\<lparr>position := \<lparr>vx = vx (position u) + vx dir * overlap,
                                                vy = vy (position u) + vy dir * overlap\<rparr>\<rparr>) s1)
         else s)"

definition obstaclePush :: "BotData \<Rightarrow> Circle \<Rightarrow> BotData" where
  "obstaclePush bt ob =
     (let obsPos = c_position ob;
          dist = distance (position bt) obsPos;
          minDist = BOT_RADIUS + c_radius ob
      in if dist < minDist \<and> dist > 0 then
           (let dir = normalize (sub (position bt) obsPos);
                overlap = minDist - dist
            in bt\<lparr>position := \<lparr>vx = vx (position bt) + vx dir * overlap,
                                 vy = vy (position bt) + vy dir * overlap\<rparr>\<rparr>)
         else bt)"

definition resolveObstacleCollision :: "BotData \<Rightarrow> ArenaConfig option \<Rightarrow> BotData" where
  "resolveObstacleCollision bt cfg = foldl obstaclePush bt (obstacleCircles cfg)"

definition moveProjectile :: "Projectile \<Rightarrow> Projectile" where
  "moveProjectile p =
     p\<lparr>pr_position := \<lparr>vx = vx (pr_position p) + vx (pr_velocity p),
                        vy = vy (pr_position p) + vy (pr_velocity p)\<rparr>,
       pr_lifetime := pr_lifetime p - 1\<rparr>"

definition keepProjectile :: "Circle list \<Rightarrow> Projectile \<Rightarrow> bool" where
  "keepProjectile obs p =
     (if \<bar>vx (pr_position p)\<bar> > ARENA_HALF \<or> \<bar>vy (pr_position p)\<bar> > ARENA_HALF then False
      else if list_ex (\<lambda>ob. distance (pr_position p) (c_position ob) < c_radius ob) obs then False
      else pr_lifetime p > 0)"

definition updateProjectiles :: "Projectile list \<Rightarrow> ArenaConfig option \<Rightarrow> Projectile list" where
  "updateProjectiles ps cfg = filter (keepProjectile (obstacleCircles cfg)) (map moveProjectile ps)"

section \<open>Entity store (src/engine/GameState.ts)\<close>

definition createBot :: "nat \<Rightarrow> string \<Rightarrow> Vec2 \<Rightarrow> BotData" where
  "createBot i nm pos =
     \<lparr>bid = i, bname = nm, hp = BOT_HP, energy = BOT_ENERGY, position = pos,
      facing = \<lparr>vx = (if i = 0 then 1 else - 1), vy = 0\<rparr>,
      velocity = \<lparr>vx = 0, vy = 0\<rparr>,
      cooldowns = \<lparr>melee = 0, ranged = 0, special = 0, dash = 0, heal = 0, trap = 0\<rparr>,
      status = \<lparr>burning = 0, slowed = 0, shielded = False, attackCommit = 0\<rparr>,
      lastCombatTick = 0, momentum = 0, isDefending = False, lastAction = None,
      damageDealt = 0, damageTaken = 0, actionsUsed = Map.empty\<rparr>"

definition init :: "ArenaConfig option \<Rightarrow> string \<Rightarrow> string \<Rightarrow> GameState" where
  "init cfg bot1Name bot2Name =
     (let spawn1 = (case cfg of None \<Rightarrow> vec2 (- 10) 0 | Some c \<Rightarrow> fst (spawnPoints c));
          spawn2 = (case cfg of None \<Rightarrow> vec2 10 0 | Some c \<Rightarrow> snd (spawnPoints c))
      in \<lparr>bots = [createBot 0 bot1Name spawn1, createBot 1 bot2Name spawn2],
          projectiles = [], pickups = [], traps = [], tick = 0, events = [],
          gameOver = False, winner = None, arenaConfig = cfg,
          lastKnownEnemyPos = [spawn2, spawn1], enemyVisible = [True, True],
          nextProjectileId = 0, nextPickupId = 0, nextTrapId = 0\<rparr>)"

definition canSee :: "GameState \<Rightarrow> nat \<Rightarrow> bool" where
  "canSee s botId =
     (let enemyId = 1 - botId
      in hasLineOfSight (position (bots s ! botId)) (position (bots s ! enemyId))
           (obstacleCircles (arenaConfig s))
         \<and> isInFieldOfView (facing (bots s ! botId)) (position (bots s ! botId))
             (position (bots s ! enemyId)) BOT_FOV)"

definition visibilityStep :: "GameState \<Rightarrow> nat \<Rightarrow> GameState" where
  "visibilityStep s botId =
     (let enemyId = 1 - botId;
          cs = canSee s botId;
          s1 = s\<lparr>enemyVisible := (enemyVisible s)[botId := cs]\<rparr>
      in if cs then s1\<lparr>lastKnownEnemyPos := (lastKnownEnemyPos s1)[botId := position (bots s1 ! enemyId)]\<rparr>
         else s1)"

definition updateVisibility :: "GameState \<Rightarrow> GameState" where
  "updateVisibility s = foldl visibilityStep s [0..<2]"

text \<open>
  \<open>trySpawnPickup\<close> calls \<open>Math.random()\<close> three times: for the kind, the x and the y
  coordinate.  The three values it would return in this tick are an argument.
\<close>

type_synonym Draws = "real \<times> real \<times> real"

definition trySpawnPickup :: "Draws \<Rightarrow> GameState \<Rightarrow> GameState" where
  "trySpawnPickup rnd s =
     (if tick s mod PICKUP_INTERVAL \<noteq> 0 \<or> tick s = 0 then s
      else if length (filter pk_active (pickups s)) \<ge> MAX_PICKUPS then s
      else
        (let ty = (if fst rnd > 0.5 then health else energy_pk);
             pos = \<lparr>vx = (fst (snd rnd) - 0.5) * (ARENA_SIZE - 6),
                    vy = (snd (snd rnd) - 0.5) * (ARENA_SIZE - 6)\<rparr>
         in if list_ex (\<lambda>ob. distance pos (c_position ob) < c_radius ob + 2)
                 (obstacleCircles (arenaConfig s))
            then s
            else s\<lparr>pickups := pickups s @
                       [\<lparr>pk_id = nextPickupId s, pk_position = pos, pk_type = ty, pk_active = True\<rparr>],
                   nextPickupId := nextPickupId s + 1\<rparr>))"

definition pickupBotStep :: "nat \<Rightarrow> GameState \<Rightarrow> nat \<Rightarrow> GameState" where
  "pickupBotStep p s k =
     (let bt = bots s ! k;
          pk = pickups s ! p
      in if distance (position bt) (pk_position pk) < PICKUP_RADIUS + 1.0 then
           (let s1 = s\<lparr>pickups := (pickups s)[p := pk\<lparr>pk_active := False\<rparr>]\<rparr>;
                s2 = (if pk_type pk = health
                      then updBot k (\<lambda>b. b\<lparr>hp := min BOT_HP (hp b + HEALTH_PICKUP_AMOUNT)\<rparr>) s1
                      else updBot k (\<lambda>b. b\<lparr>energy := min BOT_ENERGY (energy b + ENERGY_PICKUP_AMOUNT)\<rparr>) s1)
            in pushEvent (mkEvent pickup None (Some (bid bt)) None (Some (pk_position pk))
                            (bname bt @ '' picked up '' @ pickupTypeName (pk_type pk) @ ''!'')) s2)
         else s)"

definition pickupStep :: "GameState \<Rightarrow> nat \<Rightarrow> GameState" where
  "pickupStep s p =
     (if \<not> pk_active (pickups s ! p) then s
      else foldl (pickupBotStep p) s [0..<length (bots s)])"

definition checkPickups :: "GameState \<Rightarrow> GameState" where
  "checkPickups s = foldl pickupStep s [0..<length (pickups s)]"

definition trapBotStep :: "nat \<Rightarrow> GameState \<Rightarrow> nat \<Rightarrow> GameState" where
  "trapBotStep t s k =
     (let bt = bots s ! k;
          tp = traps s ! t
      in if bid bt = tr_ownerId tp then s
         else if distance (position bt) (tr_position tp) < TRAP_RADIUS + 1.0 then
           (let s1 = s\<lparr>traps := (traps s)[t := tp\<lparr>tr_active := False\<rparr>]\<rparr>;
                dmg = TRAP_DAMAGE;
                now = tick s;
                s2 = updBot k (\<lambda>b. b\<lparr>hp := hp b - dmg, damageTaken := damageTaken b + dmg,
                                      status := (status b)\<lparr>slowed := TRAP_SLOW_DURATION\<rparr>,
                                      lastCombatTick := now\<rparr>) s1;
                s3 = (case findIndex (\<lambda>b. bid b = tr_ownerId tp) (bots s2) of
                        None \<Rightarrow> s2
                      | Some ow \<Rightarrow> updBot ow (\<lambda>b. b\<lparr>damageDealt := damageDealt b + dmg,
                                                       lastCombatTick := now\<rparr>) s2)
            in pushEvent (mkEvent trap_trigger (Some (tr_ownerId tp)) (Some (bid bt)) (Some dmg)
                            (Some (tr_position tp))
                            (bname bt @ '' triggered a trap! -'' @ showInt dmg @ '' + slowed!'')) s3)
         else s)"

definition trapStep :: "GameState \<Rightarrow> nat \<Rightarrow> GameState" where
  "trapStep s t =
     (if \<not> tr_active (traps s ! t) then s
      else
        (let s1 = s\<lparr>traps := (traps s)[t := (traps s ! t)\<lparr>tr_lifetime := tr_lifetime (traps s ! t) + 1\<rparr>]\<rparr>
         in foldl (trapBotStep t) s1 [0..<length (bots s1)]))"

definition checkTraps :: "GameState \<Rightarrow> GameState" where
  "checkTraps s = foldl trapStep s [0..<length (traps s)]"

definition clearEvents :: "GameState \<Rightarrow> GameState" where
  "clearEvents s = s\<lparr>events := []\<rparr>"

section \<open>Tick scheduler (src/engine/GameLoop.ts)\<close>

definition neutralAction :: BotAction where
  "neutralAction = \<lparr>move = \<lparr>vx = 0, vy = 0\<rparr>, aim = \<lparr>vx = 0, vy = 0\<rparr>, action = None\<rparr>"

text \<open>
  One tick.  \<open>acts i\<close> is the decision obtained for bot \<open>i\<close> in this tick (the value
  \<open>getAction\<close> resolved to, or the neutral action when it threw); \<open>rnd\<close> are the values
  of \<open>Math.random()\<close> for this tick.  The positions saved for interpolation and the
  wall-clock time stamp are not part of the game state and are left out.
\<close>

definition applyActionStep :: "(nat \<Rightarrow> BotAction) \<Rightarrow> GameState \<Rightarrow> nat \<Rightarrow> GameState" where
  "applyActionStep acts s i =
     (let a = acts i;
          terr = map_option terrain (arenaConfig s);
          s1 = updBot i (\<lambda>b. applyMovement b (move a) terr) s;
          s2 = updBot i (\<lambda>b. applyFacing b (aim a)) s1
      in processAction i (action a) s2)"

definition physicsStep :: "GameState \<Rightarrow> nat \<Rightarrow> GameState" where
  "physicsStep s i =
     updBot i (\<lambda>b. clampToBounds (resolveObstacleCollision b (arenaConfig s))) s"

definition sightEventStep :: "bool list \<Rightarrow> GameState \<Rightarrow> nat \<Rightarrow> GameState" where
  "sightEventStep prevVisible s i =
     (if prevVisible ! i \<and> \<not> enemyVisible s ! i then
        pushEvent (mkEvent lost_sight (Some i) (Some (1 - i)) None None
                     (bname (bots s ! i) @ '' lost sight of '' @ bname (bots s ! (1 - i)) @ ''!'')) s
      else if \<not> prevVisible ! i \<and> enemyVisible s ! i then
        pushEvent (mkEvent gained_sight (Some i) (Some (1 - i)) None None
                     (bname (bots s ! i) @ '' spotted '' @ bname (bots s ! (1 - i)) @ ''!'')) s
      else s)"

definition sightStage :: "GameState \<Rightarrow> GameState" where
  "sightStage s =
     (let prevVisible = enemyVisible s;
          s1 = updateVisibility s
      in foldl (sightEventStep prevVisible) s1 [0..<2])"

definition maxTickStage :: "GameState \<Rightarrow> GameState" where
  "maxTickStage s =
     (if tick s \<ge> MAX_TICKS \<and> \<not> gameOver s then
        (let s1 = s\<lparr>gameOver := True\<rparr>;
             a = bots s1 ! 0;
             b = bots s1 ! 1
         in if hp a > hp b then s1\<lparr>winner := Some (bid a)\<rparr>
            else if hp b > hp a then s1\<lparr>winner := Some (bid b)\<rparr>
            else s1\<lparr>winner := None\<rparr>)
      else s)"

text \<open>
  The tick in three parts: everything up to the collision resolution, the visibility
  update with its events (\<open>sightStage\<close>), and everything after it.
\<close>

definition tickMoves :: "(nat \<Rightarrow> BotAction) \<Rightarrow> GameState \<Rightarrow> GameState" where
  "tickMoves acts s0 =
     (let s1 = clearEvents s0;
          s2 = s1\<lparr>tick := tick s1 + 1\<rparr>;
          s3 = foldl (applyActionStep acts) s2 [0..<length (bots s2)];
          s4 = foldl physicsStep s3 [0..<length (bots s3)]
      in resolveBotCollision 0 1 s4)"

definition expireTraps :: "GameState \<Rightarrow> GameState" where
  "expireTraps s = s\<lparr>traps := filter (\<lambda>t. tr_active t \<and> tr_lifetime t < TRAP_LIFETIME) (traps s)\<rparr>"

definition tickResolve :: "Draws \<Rightarrow> GameState \<Rightarrow> GameState" where
  "tickResolve rnd s6 =
     (let s7 = s6\<lparr>projectiles := updateProjectiles (projectiles s6) (arenaConfig s6)\<rparr>;
          s8 = processProjectileHits s7;
          s9 = trySpawnPickup rnd s8;
          s10 = checkPickups s9;
          s11 = checkTraps s10;
          s12 = expireTraps s11;
          s13 = checkKO s12
      in maxTickStage s13)"

definition GameLoop_tick :: "Draws \<Rightarrow> (nat \<Rightarrow> BotAction) \<Rightarrow> GameState \<Rightarrow> GameState" where
  "GameLoop_tick rnd acts s0 = tickResolve rnd (sightStage (tickMoves acts s0))"

text \<open>
  A run of the loop: one entry per scheduled tick.  The loop stops scheduling once the
  match is over.  The result is the final state and the event lists published by the
  ticks, in order.
\<close>

fun runTicks :: "(Draws \<times> (nat \<Rightarrow> BotAction)) list \<Rightarrow> GameState \<times> GameEvent list list
                 \<Rightarrow> GameState \<times> GameEvent list list" where
  "runTicks [] st = st"
| "runTicks (d # ds) st =
     (if gameOver (fst st) then st
      else (let s' = GameLoop_tick (fst d) (snd d) (fst st)
            in runTicks ds (s', snd st @ [events s'])))"

definition runMatch ::
  "ArenaConfig option \<Rightarrow> string \<Rightarrow> string \<Rightarrow> (Draws \<times> (nat \<Rightarrow> BotAction)) list
     \<Rightarrow> GameState \<times> GameEvent list list" where
  "runMatch cfg bot1Name bot2Name inputs = runTicks inputs (init cfg bot1Name bot2Name, [])"

section \<open>Sandbox worker (src/bots/bot-worker.ts, worker side)\<close>

subsection \<open>Source validation\<close>

text \<open>
  The seven \<open>DANGEROUS_PATTERNS\<close>.  Six have the shape \<open>\bWORD\b\<close>, one is \<open>\bself\.\<close>.
  A word character is a letter, a digit or the underscore; \<open>\b\<close> holds between a word
  character and a non-word character or an end of the text.
\<close>

datatype Pattern = WordPattern string | SelfDotPattern

definition DANGEROUS_PATTERNS :: "Pattern list" where
  "DANGEROUS_PATTERNS =
     [WordPattern ''postMessage'', SelfDotPattern, WordPattern ''setInterval'',
      WordPattern ''setTimeout'', WordPattern ''eval'', WordPattern ''Function'',
      WordPattern ''importScripts'']"

definition isWordChar :: "char \<Rightarrow> bool" where
  "isWordChar c =
     (let n = of_char c :: nat
      in (48 \<le> n \<and> n \<le> 57) \<or> (65 \<le> n \<and> n \<le> 90) \<or> (97 \<le> n \<and> n \<le> 122) \<or> n = 95)"

definition startsWith :: "string \<Rightarrow> string \<Rightarrow> bool" where
  "startsWith p str = (take (length p) str = p)"

definition matchHere :: "Pattern \<Rightarrow> string \<Rightarrow> bool" where
  "matchHere pat str =
     (case pat of
        WordPattern w \<Rightarrow>
          startsWith w str \<and>
          (case drop (length w) str of [] \<Rightarrow> True | d # _ \<Rightarrow> \<not> isWordChar d)
      | SelfDotPattern \<Rightarrow> startsWith ''self.'' str)"

text \<open>
  \<open>pattern.test(code)\<close>: a match starting at some position whose left neighbour is not a
  word character (all patterns start with \<open>\b\<close> followed by a word character).
\<close>

fun testFrom :: "Pattern \<Rightarrow> bool \<Rightarrow> string \<Rightarrow> bool" where
  "testFrom pat prevWord [] = False"
| "testFrom pat prevWord (c # cs) =
     ((\<not> prevWord \<and> matchHere pat (c # cs)) \<or> testFrom pat (isWordChar c) cs)"

definition test :: "Pattern \<Rightarrow> string \<Rightarrow> bool" where
  "test pat code = testFrom pat False code"

definition patternSource :: "Pattern \<Rightarrow> string" where
  "patternSource pat =
     (case pat of
        WordPattern w \<Rightarrow> [CHR 0x5C] @ ''b'' @ w @ [CHR 0x5C] @ ''b''
      | SelfDotPattern \<Rightarrow> [CHR 0x5C] @ ''bself'' @ [CHR 0x5C] @ ''.'')"

definition validateCode :: "string \<Rightarrow> string option" where
  "validateCode code =
     (case List.find (\<lambda>pat. test pat code) DANGEROUS_PATTERNS of
        Some pat \<Rightarrow> Some (''Blocked: code contains forbidden pattern '' @ [CHR 0x22]
                           @ patternSource pat @ [CHR 0x22])
      | None \<Rightarrow> None)"

subsection \<open>Values returned by decision code\<close>

text \<open>
  The value a \<open>think\<close> function returns is an arbitrary JavaScript value.  Numbers are
  reals or \<open>NaN\<close>.  An object is its list of own data properties.
\<close>

datatype jsnum = NaN | Num real

datatype jsval =
    JUndefined | JNull | JBool bool | JNum jsnum | JStr string | JSymbol
  | JObj "(string \<times> jsval) list"

text \<open>
  What the language runtime supplies and the source does not contain: the conversion of
  a string to a number, the conversion of an object to a number (which may run code of
  the object and throw, \<open>None\<close>), and the evaluation of a source text to the value of
  its \<open>think\<close> binding.
\<close>

datatype 'f EvalResult = EvalThrows string | EvalValue "'f option" | EvalDiverges

record 'f JsRuntime =
  stringToNumber :: "string \<Rightarrow> jsnum"
  objectToNumber :: "(string \<times> jsval) list \<Rightarrow> jsnum option"
  evalFactory :: "string \<Rightarrow> 'f EvalResult"

text \<open>\<open>Number(v)\<close>; \<open>None\<close> when it throws.\<close>

definition Number_js :: "'f JsRuntime \<Rightarrow> jsval \<Rightarrow> jsnum option" where
  "Number_js rt v =
     (case v of
        JUndefined \<Rightarrow> Some NaN
      | JNull \<Rightarrow> Some (Num 0)
      | JBool b \<Rightarrow> Some (Num (if b then 1 else 0))
      | JNum n \<Rightarrow> Some n
      | JStr str \<Rightarrow> Some (stringToNumber rt str)
      | JSymbol \<Rightarrow> None
      | JObj fs \<Rightarrow> objectToNumber rt fs)"

text \<open>\<open>n || 0\<close> for a number \<open>n\<close>: \<open>NaN\<close> and zero are falsy.\<close>

definition orZero :: "jsnum \<Rightarrow> real" where
  "orZero n = (case n of NaN \<Rightarrow> 0 | Num r \<Rightarrow> r)"

text \<open>
  \<open>v?.k\<close> for one of the property names the sanitizer reads (move, aim, action, x, y):
  \<open>undefined\<close> on \<open>undefined\<close> and \<open>null\<close>, the own property of an object, and
  \<open>undefined\<close> on the other primitives, whose prototypes have no such property.
\<close>

definition optGet :: "jsval \<Rightarrow> string \<Rightarrow> jsval" where
  "optGet v k =
     (case v of
        JObj fs \<Rightarrow> (case map_of fs k of None \<Rightarrow> JUndefined | Some u \<Rightarrow> u)
      | _ \<Rightarrow> JUndefined)"

text \<open>The \<open>includes\<close> test against the seven action names, and the value kept.\<close>

definition actionOfName :: "string \<Rightarrow> Action option" where
  "actionOfName n =
     (if n = ''melee'' then Some Melee
      else if n = ''ranged'' then Some Ranged
      else if n = ''special'' then Some Special
      else if n = ''defend'' then Some Defend
      else if n = ''dash'' then Some Dash
      else if n = ''heal'' then Some Heal
      else if n = ''trap'' then Some Trap
      else None)"

definition sanitizeAction :: "jsval \<Rightarrow> Action option" where
  "sanitizeAction v = (case v of JStr n \<Rightarrow> actionOfName n | _ \<Rightarrow> None)"

text \<open>
  The sanitizing block of the tick handler, inside its \<open>try\<close>: \<open>None\<close> when one of the
  four \<open>Number\<close> calls throws.
\<close>

definition sanitize :: "'f JsRuntime \<Rightarrow> jsval \<Rightarrow> BotAction option" where
  "sanitize rt result =
     (case Number_js rt (optGet (optGet result ''move'') ''x'') of
        None \<Rightarrow> None
      | Some mx \<Rightarrow>
     (case Number_js rt (optGet (optGet result ''move'') ''y'') of
        None \<Rightarrow> None
      | Some my \<Rightarrow>
     (case Number_js rt (optGet (optGet result ''aim'') ''x'') of
        None \<Rightarrow> None
      | Some ax \<Rightarrow>
     (case Number_js rt (optGet (optGet result ''aim'') ''y'') of
        None \<Rightarrow> None
      | Some ay \<Rightarrow>
          Some \<lparr>move = \<lparr>vx = orZero mx, vy = orZero my\<rparr>,
                aim = \<lparr>vx = orZero ax, vy = orZero ay\<rparr>,
                action = sanitizeAction (optGet result ''action'')\<rparr>))))"

subsection \<open>Message handlers of the worker\<close>

text \<open>
  A bound decision function maps the tick data to what a call of it does: it returns a
  value, throws, or never returns.
\<close>

datatype ThinkOutcome = Returns jsval | Throws | Diverges

type_synonym 'i ThinkFn = "'i \<Rightarrow> ThinkOutcome"

text \<open>The tick handler: the action it posts, \<open>None\<close> when the call never returns.\<close>

definition workerTick :: "('i ThinkFn) JsRuntime \<Rightarrow> ('i ThinkFn) option \<Rightarrow> 'i \<Rightarrow> BotAction option" where
  "workerTick rt thinkFn dat =
     (case thinkFn of
        None \<Rightarrow> Some neutralAction
      | Some f \<Rightarrow>
          (case f dat of
             Diverges \<Rightarrow> None
           | Throws \<Rightarrow> Some neutralAction
           | Returns result \<Rightarrow>
               (case sanitize rt result of
                  None \<Rightarrow> Some neutralAction
                | Some a \<Rightarrow> Some a)))"

text \<open>\<open>compileThinkFn\<close>: the bound function, or the message of the error thrown.\<close>

datatype 'f Compiled = CompileThrows string | CompileOk 'f | CompileDiverges

definition compileThinkFn :: "'f JsRuntime \<Rightarrow> string \<Rightarrow> 'f Compiled" where
  "compileThinkFn rt code =
     (case evalFactory rt code of
        EvalThrows msg \<Rightarrow> CompileThrows msg
      | EvalDiverges \<Rightarrow> CompileDiverges
      | EvalValue None \<Rightarrow> CompileThrows ''think is not a function''
      | EvalValue (Some fn) \<Rightarrow> CompileOk fn)"

datatype RecompileReply = recompiled | recompile_error string

text \<open>
  The recompile handler: the new binding of \<open>thinkFn\<close> and the message posted (\<open>None\<close>
  when the evaluation of the source never returns).
\<close>

definition workerRecompile ::
  "'f JsRuntime \<Rightarrow> string \<Rightarrow> 'f option \<Rightarrow> 'f option \<times> RecompileReply option" where
  "workerRecompile rt code thinkFn =
     (case validateCode code of
        Some validationError \<Rightarrow> (thinkFn, Some (recompile_error validationError))
      | None \<Rightarrow>
          (case compileThinkFn rt code of
             CompileThrows msg \<Rightarrow> (thinkFn, Some (recompile_error (''Compile error: '' @ msg)))
           | CompileDiverges \<Rightarrow> (thinkFn, None)
           | CompileOk newFn \<Rightarrow> (Some newFn, Some recompiled)))"

section \<open>Sandbox host (src/bots/bot-worker.ts, class BotRunner)\<close>

text \<open>
  The slot of one bot in the runner, together with its worker.  \<open>sb_inbox\<close> are the tick
  messages posted to the worker and not yet answered (the worker handles its messages
  one at a time, in order); \<open>sb_pending\<close> is the entry of \<open>pendingActions\<close> for the bot,
  named by the number of the request whose promise it resolves; \<open>sb_timers\<close> are the
  armed 50 ms timers; \<open>sb_resolved\<close> are the settled promises.
\<close>

record 'i Sandbox =
  sb_ready :: bool
  sb_thinkFn :: "('i ThinkFn) option"
  sb_currentCode :: "string option"
  sb_inbox :: "'i list"
  sb_pending :: "nat option"
  sb_timers :: "nat list"
  sb_resolved :: "nat \<Rightarrow> BotAction option"

text \<open>A promise settles once: a second \<open>resolve\<close> has no effect.\<close>

definition resolvePromise :: "nat \<Rightarrow> BotAction \<Rightarrow> 'i Sandbox \<Rightarrow> 'i Sandbox" where
  "resolvePromise k a sb =
     (case sb_resolved sb k of
        None \<Rightarrow> sb\<lparr>sb_resolved := (sb_resolved sb)(k \<mapsto> a)\<rparr>
      | Some _ \<Rightarrow> sb)"

text \<open>
  What can happen, one at a time: \<open>getAction\<close> is called (request \<open>k\<close>, tick data), the
  timer of request \<open>k\<close> fires, or the worker finishes the oldest tick message and its
  reply is handled by the runner.
\<close>

datatype 'i SandboxEvent = GetAction nat 'i | TimerFires nat | WorkerReplies

definition getAction :: "nat \<Rightarrow> 'i \<Rightarrow> 'i Sandbox \<Rightarrow> 'i Sandbox" where
  "getAction k dat sb =
     (if \<not> sb_ready sb then resolvePromise k neutralAction sb
      else sb\<lparr>sb_timers := k # sb_timers sb,
              sb_pending := Some k,
              sb_inbox := sb_inbox sb @ [dat]\<rparr>)"

definition timerFires :: "nat \<Rightarrow> 'i Sandbox \<Rightarrow> 'i Sandbox" where
  "timerFires k sb =
     (if k \<in> set (sb_timers sb)
      then resolvePromise k neutralAction
             (sb\<lparr>sb_timers := removeAll k (sb_timers sb), sb_pending := None\<rparr>)
      else sb)"

definition onActionMessage :: "BotAction \<Rightarrow> 'i Sandbox \<Rightarrow> 'i Sandbox" where
  "onActionMessage a sb =
     (case sb_pending sb of
        None \<Rightarrow> sb
      | Some k \<Rightarrow>
          resolvePromise k a (sb\<lparr>sb_pending := None, sb_timers := removeAll k (sb_timers sb)\<rparr>))"

definition workerReplies :: "('i ThinkFn) JsRuntime \<Rightarrow> 'i Sandbox \<Rightarrow> 'i Sandbox" where
  "workerReplies rt sb =
     (case sb_inbox sb of
        [] \<Rightarrow> sb
      | dat # rest \<Rightarrow>
          (case workerTick rt (sb_thinkFn sb) dat of
             None \<Rightarrow> sb
           | Some a \<Rightarrow> onActionMessage a (sb\<lparr>sb_inbox := rest\<rparr>)))"

definition sandboxStep :: "('i ThinkFn) JsRuntime \<Rightarrow> 'i Sandbox \<Rightarrow> 'i SandboxEvent \<Rightarrow> 'i Sandbox" where
  "sandboxStep rt sb ev =
     (case ev of
        GetAction k dat \<Rightarrow> getAction k dat sb
      | TimerFires k \<Rightarrow> timerFires k sb
      | WorkerReplies \<Rightarrow> workerReplies rt sb)"

definition sandboxRun :: "('i ThinkFn) JsRuntime \<Rightarrow> 'i Sandbox \<Rightarrow> 'i SandboxEvent list \<Rightarrow> 'i Sandbox" where
  "sandboxRun rt sb evs = foldl (sandboxStep rt) sb evs"

text \<open>
  One decide call: the request, followed by the reply of the worker when there is one
  and it is handled before the timer fires (\<open>replyFirst\<close>), and by the timer otherwise.
  The result is what the promise of the call settled to.
\<close>

definition decide ::
  "('i ThinkFn) JsRuntime \<Rightarrow> 'i Sandbox \<Rightarrow> nat \<Rightarrow> 'i \<Rightarrow> bool \<Rightarrow> BotAction option" where
  "decide rt sb k dat replyFirst =
     (let sb1 = sandboxStep rt sb (GetAction k dat);
          sb2 = (if sb_inbox sb1 \<noteq> [] \<and> replyFirst
                    \<and> workerTick rt (sb_thinkFn sb1) (hd (sb_inbox sb1)) \<noteq> None
                 then sandboxStep rt sb1 WorkerReplies
                 else sandboxStep rt sb1 (TimerFires k))
      in sb_resolved sb2 k)"

text \<open>
  \<open>hotSwapCode\<close>: the runner posts the recompile message when the worker is ready, and
  reports \<open>true\<close> only for a \<open>recompiled\<close> reply handled before its 5000 ms timer fires.
\<close>

definition hotSwapCode ::
  "('i ThinkFn) JsRuntime \<Rightarrow> string \<Rightarrow> bool \<Rightarrow> 'i Sandbox \<Rightarrow> 'i Sandbox \<times> bool" where
  "hotSwapCode rt code replyFirst sb =
     (if \<not> sb_ready sb then (sb, False)
      else
        (let r = workerRecompile rt code (sb_thinkFn sb);
             sb1 = sb\<lparr>sb_thinkFn := fst r\<rparr>
         in case snd r of
              None \<Rightarrow> (sb1, False)
            | Some reply \<Rightarrow>
                (if \<not> replyFirst then (sb1, False)
                 else (case reply of
                         recompiled \<Rightarrow> (sb1\<lparr>sb_currentCode := Some code\<rparr>, True)
                       | recompile_error err \<Rightarrow> (sb1, False)))))"

section \<open>Invariants used in the proofs\<close>

definition isSightEvent :: "GameEvent \<Rightarrow> bool" where
  "isSightEvent e = (ev_type e = lost_sight \<or> ev_type e = gained_sight)"

definition botOk :: "BotData \<Rightarrow> bool" where
  "botOk b = (hp b \<le> BOT_HP \<and> 0 \<le> energy b \<and> energy b \<le> BOT_ENERGY)"

definition stateOk :: "GameState \<Rightarrow> bool" where
  "stateOk s = (list_all botOk (bots s) \<and> list_all (\<lambda>p. 0 \<le> pr_damage p) (projectiles s))"

text \<open>
  \<open>frame s s'\<close>: what every stage of a tick other than the visibility update and the
  termination check leaves alone, going from \<open>s\<close> to \<open>s'\<close>.
\<close>

definition frame :: "GameState \<Rightarrow> GameState \<Rightarrow> bool" where
  "frame s s' =
     (map bid (bots s') = map bid (bots s) \<and> map bname (bots s') = map bname (bots s)
      \<and> tick s' = tick s \<and> arenaConfig s' = arenaConfig s
      \<and> enemyVisible s' = enemyVisible s \<and> lastKnownEnemyPos s' = lastKnownEnemyPos s
      \<and> gameOver s' = gameOver s \<and> winner s' = winner s
      \<and> filter isSightEvent (events s') = filter isSightEvent (events s)
      \<and> (stateOk s \<longrightarrow> stateOk s'))"

text \<open>The stages of \<open>tickResolve\<close> that precede the termination check.\<close>

definition preKO :: "Draws \<Rightarrow> GameState \<Rightarrow> GameState" where
  "preKO rnd s6 =
     expireTraps (checkTraps (checkPickups (trySpawnPickup rnd (processProjectileHits
       (s6\<lparr>projectiles := updateProjectiles (projectiles s6) (arenaConfig s6)\<rparr>)))))"

text \<open>
  The sight-transition events the specification asks for, for agent \<open>i\<close> whose
  \<open>canSee\<close> value went from \<open>before\<close> to \<open>after\<close>: one event on a flip, none otherwise.
\<close>

definition expectedSightEvents :: "BotData list \<Rightarrow> nat \<Rightarrow> bool \<Rightarrow> bool \<Rightarrow> GameEvent list" where
  "expectedSightEvents bs i before after =
     (if before \<and> \<not> after then
        [mkEvent lost_sight (Some i) (Some (1 - i)) None None
           (bname (bs ! i) @ '' lost sight of '' @ bname (bs ! (1 - i)) @ ''!'')]
      else if \<not> before \<and> after then
        [mkEvent gained_sight (Some i) (Some (1 - i)) None None
           (bname (bs ! i) @ '' spotted '' @ bname (bs ! (1 - i)) @ ''!'')]
      else [])"

section \<open>Example states\<close>

definition startState :: GameState where
  "startState = init None ''A'' ''B''"

text \<open>Bot 0 owns two active traps, the cap.\<close>

definition trapCapState :: GameState where
  "trapCapState =
     startState\<lparr>traps :=
       [\<lparr>tr_id = 0, tr_ownerId = 0, tr_position = vec2 (- 5) 0, tr_lifetime = 3, tr_active = True\<rparr>,
        \<lparr>tr_id = 1, tr_ownerId = 0, tr_position = vec2 (- 5) 4, tr_lifetime = 1, tr_active = True\<rparr>],
       nextTrapId := 2\<rparr>"

text \<open>Both bots are down at the knockout check.\<close>

definition doubleKoState :: GameState where
  "doubleKoState =
     startState\<lparr>bots := [(bots startState ! 0)\<lparr>hp := - 3\<rparr>, (bots startState ! 1)\<lparr>hp := 0\<rparr>],
                tick := 57\<rparr>"

text \<open>
  An arena without obstacles on flat ground, the spawn points six units apart, and the
  match at its start in that arena.  \<open>idle\<close> is the decision of doing nothing, for both
  bots.
\<close>

definition flatTerrain :: TerrainData where
  "flatTerrain = \<lparr>heightmap = [0, 0, 0, 0], resolution = 2, arenaSize = 40\<rparr>"

definition openArena :: ArenaConfig where
  "openArena = \<lparr>obstacles = [], terrain = flatTerrain, spawnPoints = (vec2 (- 3) 0, vec2 3 0)\<rparr>"

definition arenaStart :: GameState where
  "arenaStart = init (Some openArena) ''A'' ''B''"

definition idle :: "nat \<Rightarrow> BotAction" where
  "idle = (\<lambda>i. neutralAction)"

text \<open>The same match with the tick counter at \<open>t\<close> and the visibility flags \<open>ev\<close>.\<close>

definition arenaAt :: "int \<Rightarrow> bool list \<Rightarrow> GameState" where
  "arenaAt t ev = arenaStart\<lparr>tick := t, enemyVisible := ev\<rparr>"

text \<open>
  Two runs of a hundred ticks in the open arena.  Both bots decide to do nothing in
  every tick of both runs; the runs differ only in the values \<open>Math.random()\<close> returns
  in tick 100, when a pickup is spawned: on top of bot 0 in the first run, far from both
  bots in the second.
\<close>

definition drawsNear :: Draws where
  "drawsNear = (9 / 10, 7 / 17, 1 / 2)"

definition drawsFar :: Draws where
  "drawsFar = (9 / 10, 1 / 2, 9 / 10)"

definition runNear :: "(Draws \<times> (nat \<Rightarrow> BotAction)) list" where
  "runNear = replicate 99 (drawsFar, idle) @ [(drawsNear, idle)]"

definition runFar :: "(Draws \<times> (nat \<Rightarrow> BotAction)) list" where
  "runFar = replicate 99 (drawsFar, idle) @ [(drawsFar, idle)]"

text \<open>A bot at rest: full hp and energy, standing still, nothing counting down.\<close>

definition rested :: "BotData \<Rightarrow> bool" where
  "rested b =
     (hp b = BOT_HP \<and> energy b = BOT_ENERGY \<and> velocity b = \<lparr>vx = 0, vy = 0\<rparr> \<and> momentum b = 0
      \<and> cooldowns b = \<lparr>melee = 0, ranged = 0, special = 0, dash = 0, heal = 0, trap = 0\<rparr>
      \<and> status b = \<lparr>burning = 0, slowed = 0, shielded = False, attackCommit = 0\<rparr>
      \<and> \<not> isDefending b)"

section \<open>Basic facts\<close>

lemmas constants_defs =
  ARENA_SIZE_def ARENA_HALF_def MAX_TICKS_def BOT_HP_def BOT_ENERGY_def BOT_RADIUS_def
  BOT_SPEED_def ENERGY_REGEN_def BOT_FOV_def MELEE_DAMAGE_def MELEE_ENERGY_def
  MELEE_COOLDOWN_def MELEE_RANGE_def RANGED_DAMAGE_def RANGED_ENERGY_def
  RANGED_COOLDOWN_def PROJECTILE_SPEED_def SPECIAL_DAMAGE_def SPECIAL_ENERGY_def
  SPECIAL_COOLDOWN_def SPECIAL_RANGE_def DEFEND_ENERGY_PER_TICK_def DEFEND_REDUCTION_def
  DASH_ENERGY_def DASH_COOLDOWN_def DASH_DISTANCE_def HEAL_AMOUNT_def HEAL_ENERGY_def
  HEAL_COOLDOWN_def TRAP_DAMAGE_def TRAP_ENERGY_def TRAP_COOLDOWN_def TRAP_RADIUS_def
  TRAP_MAX_PER_BOT_def TRAP_SLOW_DURATION_def TRAP_LIFETIME_def MELEE_COMMIT_TICKS_def
  SPECIAL_COMMIT_TICKS_def COMMIT_SPEED_MULT_def OOC_REGEN_DELAY_def OOC_REGEN_RATE_def
  MOMENTUM_BUILDUP_def MOMENTUM_DECAY_def MOMENTUM_MAX_BONUS_def BURN_DAMAGE_def
  BURN_DURATION_def PICKUP_INTERVAL_def MAX_PICKUPS_def HEALTH_PICKUP_AMOUNT_def
  ENERGY_PICKUP_AMOUNT_def PICKUP_RADIUS_def TERRAIN_SLOPE_MAX_def

lemma bots_updBot [simp]: "bots (updBot i f s) = (bots s)[i := f (bots s ! i)]"
  by (simp add: updBot_def)

lemma updBot_other [simp]:
  "traps (updBot i f s) = traps s" "events (updBot i f s) = events s"
  "tick (updBot i f s) = tick s" "gameOver (updBot i f s) = gameOver s"
  "winner (updBot i f s) = winner s" "projectiles (updBot i f s) = projectiles s"
  "pickups (updBot i f s) = pickups s" "arenaConfig (updBot i f s) = arenaConfig s"
  "enemyVisible (updBot i f s) = enemyVisible s"
  "lastKnownEnemyPos (updBot i f s) = lastKnownEnemyPos s"
  "nextTrapId (updBot i f s) = nextTrapId s"
  "nextProjectileId (updBot i f s) = nextProjectileId s"
  "nextPickupId (updBot i f s) = nextPickupId s"
  by (simp_all add: updBot_def)

lemma pushEvent_simps [simp]:
  "bots (pushEvent e s) = bots s" "traps (pushEvent e s) = traps s"
  "events (pushEvent e s) = events s @ [e]"
  "tick (pushEvent e s) = tick s" "gameOver (pushEvent e s) = gameOver s"
  "winner (pushEvent e s) = winner s" "projectiles (pushEvent e s) = projectiles s"
  "pickups (pushEvent e s) = pickups s" "arenaConfig (pushEvent e s) = arenaConfig s"
  "enemyVisible (pushEvent e s) = enemyVisible s"
  "lastKnownEnemyPos (pushEvent e s) = lastKnownEnemyPos s"
  "nextTrapId (pushEvent e s) = nextTrapId s"
  "nextProjectileId (pushEvent e s) = nextProjectileId s"
  "nextPickupId (pushEvent e s) = nextPickupId s"
  by (simp_all add: pushEvent_def)

lemmas upkeep_defs = upkeep_def resetDefending_def tickCooldowns_def tickCommit_def
  regenEnergy_def burnTick_def tickSlowed_def oocRegen_def

lemma upkeep_simps [simp]:
  "bid (upkeep t b) = bid b" "bname (upkeep t b) = bname b" "position (upkeep t b) = position b"
  by (simp_all add: upkeep_defs)

lemma processAction_None [simp]: "processAction i None s = upkeepStage i s"
  by (simp add: processAction_def)

lemma upt_2: "[0..<2] = [0, Suc 0]"
  by (simp add: numeral_2_eq_2)

lemmas startState_defs = startState_def init_def createBot_def vec2_def Let_def

section \<open>Frame lemmas for the stages of a tick\<close>

lemma frame_refl [simp]: "frame s s"
  by (simp add: frame_def)

lemma frame_trans: "frame s t \<Longrightarrow> frame t u \<Longrightarrow> frame s u"
  by (simp add: frame_def)

lemma map_update_same: "g (f (xs ! i)) = g (xs ! i) \<Longrightarrow> map g (xs[i := f (xs ! i)]) = map g xs"
  by (metis list_update_id map_update)

lemma stateOk_updBot:
  assumes "stateOk s" "i < length (bots s) \<Longrightarrow> botOk (f (bots s ! i))"
  shows "stateOk (updBot i f s)"
proof (cases "i < length (bots s)")
  case True
  then have "set ((bots s)[i := f (bots s ! i)]) \<subseteq> insert (f (bots s ! i)) (set (bots s))"
    by (rule_tac set_update_subset_insert)
  with assms True show ?thesis
    by (auto simp: stateOk_def list_all_iff)
next
  case False
  with assms show ?thesis by (simp add: stateOk_def list_update_beyond)
qed

lemma frame_updBot:
  assumes "frame s0 s"
    and "\<And>b. bid (f b) = bid b" "\<And>b. bname (f b) = bname b"
    and "\<And>b. stateOk s \<Longrightarrow> i < length (bots s) \<Longrightarrow> bots s ! i = b \<Longrightarrow> botOk b \<Longrightarrow> botOk (f b)"
  shows "frame s0 (updBot i f s)"
proof -
  have "stateOk s \<Longrightarrow> stateOk (updBot i f s)"
    using assms(4) by (intro stateOk_updBot) (auto simp: stateOk_def list_all_length)
  then have "frame s (updBot i f s)"
    using assms(2,3) by (simp add: frame_def map_update_same)
  with assms(1) show ?thesis by (rule frame_trans)
qed

lemma frame_pushEvent:
  "frame s0 s \<Longrightarrow> \<not> isSightEvent e \<Longrightarrow> frame s0 (pushEvent e s)"
  by (simp add: frame_def stateOk_def)

lemma frame_addTrap: "frame s0 s \<Longrightarrow> frame s0 (addTrap ow pos s)"
  by (simp add: frame_def stateOk_def addTrap_def)

lemma frame_addProjectile: "frame s0 s \<Longrightarrow> 0 \<le> dmg \<Longrightarrow> frame s0 (addProjectile ow pos vel dmg s)"
  by (simp add: frame_def stateOk_def addProjectile_def)

lemma frame_foldl:
  assumes "\<And>s k. frame s0 s \<Longrightarrow> frame s0 (f s k)"
  shows "frame s0 s \<Longrightarrow> frame s0 (foldl f s ks)"
  by (induction ks arbitrary: s) (simp_all add: assms)

lemma isSight_mkEvent [simp]:
  "isSightEvent (mkEvent ty a t d p txt) = (ty = lost_sight \<or> ty = gained_sight)"
  by (simp add: isSightEvent_def mkEvent_def)

lemma bumpUsed_simps [simp]:
  "bid (bumpUsed k b) = bid b" "bname (bumpUsed k b) = bname b"
  "hp (bumpUsed k b) = hp b" "energy (bumpUsed k b) = energy b"
  by (simp_all add: bumpUsed_def)

lemma botOk_bumpUsed [simp]: "botOk (bumpUsed k b) = botOk b"
  by (simp add: botOk_def)

lemma botOk_upkeep: "botOk b \<Longrightarrow> botOk (upkeep t b)"
  by (simp add: upkeep_defs botOk_def constants_defs)

lemma defendedDamage_nonneg: "0 \<le> d \<Longrightarrow> 0 \<le> defendedDamage df d"
  by (simp add: defendedDamage_def js_round_def DEFEND_REDUCTION_def)

lemma frame_if:
  "(c \<Longrightarrow> frame s0 a) \<Longrightarrow> (\<not> c \<Longrightarrow> frame s0 b) \<Longrightarrow> frame s0 (if c then a else b)"
  by simp

lemma botOk_fields [simp]:
  "botOk (b\<lparr>damageDealt := dd\<rparr>) = botOk b"
  "botOk (b\<lparr>damageTaken := dt\<rparr>) = botOk b"
  "botOk (b\<lparr>lastCombatTick := lc\<rparr>) = botOk b"
  "botOk (b\<lparr>status := st\<rparr>) = botOk b"
  "botOk (b\<lparr>cooldowns := cd\<rparr>) = botOk b"
  "botOk (b\<lparr>momentum := m\<rparr>) = botOk b"
  "botOk (b\<lparr>position := p\<rparr>) = botOk b"
  "botOk (b\<lparr>isDefending := df\<rparr>) = botOk b"
  by (simp_all add: botOk_def)

lemma botOk_damage: "botOk b \<Longrightarrow> 0 \<le> d \<Longrightarrow> botOk (b\<lparr>hp := hp b - d\<rparr>)"
  by (simp add: botOk_def)

lemma botOk_heal: "botOk b \<Longrightarrow> botOk (b\<lparr>hp := min BOT_HP h\<rparr>)"
  by (simp add: botOk_def)

lemma botOk_pay: "botOk b \<Longrightarrow> 0 \<le> c \<Longrightarrow> \<not> energy b < c \<Longrightarrow> botOk (b\<lparr>energy := energy b - c\<rparr>)"
  by (simp add: botOk_def)

lemma botOk_gain: "botOk b \<Longrightarrow> 0 \<le> k \<Longrightarrow> botOk (b\<lparr>energy := min BOT_ENERGY (energy b + k)\<rparr>)"
  by (simp add: botOk_def BOT_ENERGY_def)

lemmas frame_intros = frame_pushEvent frame_updBot frame_addTrap frame_addProjectile

lemma frame_upkeepStage: "frame s0 s \<Longrightarrow> frame s0 (upkeepStage i s)"
  unfolding upkeepStage_def Let_def
  by (auto intro!: frame_intros simp: botOk_upkeep)

lemma frame_if_weak:
  "frame s0 a \<Longrightarrow> frame s0 b \<Longrightarrow> frame s0 (if c then a else b)"
  by simp

lemma frame_processSpecial: 
  assumes f: "frame s0 s" shows "frame s0 (processSpecial i j s)"
  unfolding processSpecial_def Let_def
  apply (rule frame_if)
   apply (rule f)
  apply (intro frame_if_weak frame_intros f)
  apply (simp_all add: botOk_damage botOk_pay defendedDamage_nonneg SPECIAL_DAMAGE_def SPECIAL_ENERGY_def)
  done

lemma frame_processMelee: 
  assumes f: "frame s0 s" shows "frame s0 (processMelee i j s)"
  unfolding processMelee_def Let_def
  apply (rule frame_if)
   apply (rule f)
  apply (intro frame_if_weak frame_intros f)
  apply (simp_all add: botOk_damage botOk_pay defendedDamage_nonneg MELEE_DAMAGE_def MELEE_ENERGY_def)
  done

lemma frame_processRanged: "frame s0 s \<Longrightarrow> frame s0 (processRanged i j s)"
  unfolding processRanged_def Let_def
  by (auto intro!: frame_intros simp: botOk_def constants_defs)

lemma frame_processDefend: "frame s0 s \<Longrightarrow> frame s0 (processDefend i s)"
  unfolding processDefend_def Let_def
  by (auto intro!: frame_intros simp: botOk_def constants_defs)

lemma frame_processDash: "frame s0 s \<Longrightarrow> frame s0 (processDash i s)"
  unfolding processDash_def Let_def
  by (auto intro!: frame_intros simp: botOk_def constants_defs)

lemma frame_processHeal: "frame s0 s \<Longrightarrow> frame s0 (processHeal i s)"
  unfolding processHeal_def Let_def
  by (auto intro!: frame_intros simp: botOk_def constants_defs)

lemma frame_processTrap: "frame s0 s \<Longrightarrow> frame s0 (processTrap i s)"
  unfolding processTrap_def Let_def
  by (auto intro!: frame_intros simp: botOk_def constants_defs)

lemmas frame_handlers = frame_processMelee frame_processRanged frame_processSpecial
  frame_processDefend frame_processDash frame_processHeal frame_processTrap

lemma frame_processAction: "frame s0 s \<Longrightarrow> frame s0 (processAction i act s)"
  unfolding processAction_def Let_def
  by (auto intro!: frame_handlers frame_upkeepStage split: option.splits Action.splits)

lemma applyMovement_simps [simp]:
  "bid (applyMovement b mv tr) = bid b" "bname (applyMovement b mv tr) = bname b"
  "hp (applyMovement b mv tr) = hp b" "energy (applyMovement b mv tr) = energy b"
  by (simp_all add: applyMovement_def Let_def)

lemma applyFacing_simps [simp]:
  "bid (applyFacing b am) = bid b" "bname (applyFacing b am) = bname b"
  "hp (applyFacing b am) = hp b" "energy (applyFacing b am) = energy b"
  by (simp_all add: applyFacing_def Let_def)

lemma clampToBounds_simps [simp]:
  "bid (clampToBounds b) = bid b" "bname (clampToBounds b) = bname b"
  "hp (clampToBounds b) = hp b" "energy (clampToBounds b) = energy b"
  by (simp_all add: clampToBounds_def Let_def)

lemma obstaclePush_simps [simp]:
  "bid (obstaclePush b ob) = bid b" "bname (obstaclePush b ob) = bname b"
  "hp (obstaclePush b ob) = hp b" "energy (obstaclePush b ob) = energy b"
  by (simp_all add: obstaclePush_def Let_def)

lemma foldl_obstaclePush_simps [simp]:
  "bid (foldl obstaclePush b obs) = bid b" "bname (foldl obstaclePush b obs) = bname b"
  "hp (foldl obstaclePush b obs) = hp b" "energy (foldl obstaclePush b obs) = energy b"
  by (induction obs arbitrary: b) simp_all

lemma frame_applyActionStep: "frame s0 s \<Longrightarrow> frame s0 (applyActionStep acts s i)"
  unfolding applyActionStep_def Let_def
  by (auto intro!: frame_processAction frame_intros simp: botOk_def)

lemma frame_physicsStep: "frame s0 s \<Longrightarrow> frame s0 (physicsStep s i)"
  unfolding physicsStep_def resolveObstacleCollision_def
  by (auto intro!: frame_intros simp: botOk_def)

lemma frame_resolveBotCollision: "frame s0 s \<Longrightarrow> frame s0 (resolveBotCollision ia ib s)"
  unfolding resolveBotCollision_def Let_def
  by (auto intro!: frame_intros simp: botOk_def)

lemma pr_damage_moveProjectile [simp]: "pr_damage (moveProjectile p) = pr_damage p"
  by (simp add: moveProjectile_def)

lemma damage_updateProjectiles:
  "list_all (\<lambda>p. 0 \<le> pr_damage p) ps \<Longrightarrow> list_all (\<lambda>p. 0 \<le> pr_damage p) (updateProjectiles ps cfg)"
  by (induction ps) (simp_all add: updateProjectiles_def)

lemma frame_updateProjectiles:
  "frame s0 s \<Longrightarrow> frame s0 (s\<lparr>projectiles := updateProjectiles (projectiles s) cfg\<rparr>)"
  by (simp add: frame_def stateOk_def damage_updateProjectiles)

lemma frame_projectileHit:
  assumes "frame s0 s" "stateOk s \<Longrightarrow> 0 \<le> pr_damage proj"
  shows "frame s0 (projectileHit proj k s)"
proof -
  have d: "stateOk s \<Longrightarrow> 0 \<le> defendedDamage (isDefending (bots s ! k)) (pr_damage proj)"
    using assms(2) by (simp add: defendedDamage_nonneg)
  show ?thesis
    unfolding projectileHit_def Let_def
    using assms(1) d
    by (auto intro!: frame_intros simp: botOk_def split: option.splits)
qed

lemma projectiles_projectileHit [simp]: "projectiles (projectileHit proj k s) = projectiles s"
  by (simp add: projectileHit_def Let_def split: option.splits)

lemma frame_projectile_fold:
  "frame s0 (snd acc) \<Longrightarrow> set ps \<subseteq> set (projectiles (snd acc)) \<Longrightarrow>
   set (fst acc) \<subseteq> set (projectiles (snd acc)) \<Longrightarrow>
   frame s0 (snd (foldl projectileStep acc ps)) \<and>
   set (fst (foldl projectileStep acc ps)) \<subseteq> set (projectiles (snd acc))
   \<and> projectiles (snd (foldl projectileStep acc ps)) = projectiles (snd acc)"
proof (induction ps arbitrary: acc)
  case Nil
  then show ?case by simp
next
  case (Cons p ps)
  have d: "stateOk (snd acc) \<Longrightarrow> 0 \<le> pr_damage p"
    using Cons.prems(2) by (auto simp: stateOk_def list_all_iff)
  have 1: "frame s0 (snd (projectileStep acc p))"
    using Cons.prems(1) d
    by (auto simp: projectileStep_def Let_def intro!: frame_projectileHit split: option.splits)
  have 2: "projectiles (snd (projectileStep acc p)) = projectiles (snd acc)"
    by (simp add: projectileStep_def Let_def split: option.splits)
  have 3: "set (fst (projectileStep acc p)) \<subseteq> set (projectiles (snd acc))"
    using Cons.prems(2,3) by (auto simp: projectileStep_def Let_def split: option.splits)
  have 4: "set ps \<subseteq> set (projectiles (snd (projectileStep acc p)))"
    using Cons.prems(2) 2 by simp
  have 5: "set (fst (projectileStep acc p)) \<subseteq> set (projectiles (snd (projectileStep acc p)))"
    using 3 2 by simp
  from Cons.IH [OF 1 4 5] 2
  show ?case by simp
qed

lemma frame_processProjectileHits:
  assumes f: "frame s0 s"
  shows "frame s0 (processProjectileHits s)"
proof -
  define r where "r = foldl projectileStep ([], s) (projectiles s)"
  from frame_projectile_fold [of s0 "([], s)" "projectiles s"] f
  have 1: "frame s0 (snd r)" and 2: "set (fst r) \<subseteq> set (projectiles s)"
    and 3: "projectiles (snd r) = projectiles s"
    by (simp_all add: r_def)
  have "frame (snd r) ((snd r)\<lparr>projectiles := fst r\<rparr>)"
    using 2 3 by (auto simp: frame_def stateOk_def list_all_iff)
  with 1 have "frame s0 ((snd r)\<lparr>projectiles := fst r\<rparr>)" by (rule frame_trans)
  then show ?thesis
    by (simp add: processProjectileHits_def Let_def r_def)
qed

lemma frame_trySpawnPickup: "frame s0 s \<Longrightarrow> frame s0 (trySpawnPickup rnd s)"
  by (auto simp: trySpawnPickup_def Let_def frame_def stateOk_def)

lemma frame_pickups_upd: "frame s0 s \<Longrightarrow> frame s0 (s\<lparr>pickups := ps\<rparr>)"
  by (simp add: frame_def stateOk_def)

lemma frame_traps_upd: "frame s0 s \<Longrightarrow> frame s0 (s\<lparr>traps := ts\<rparr>)"
  by (simp add: frame_def stateOk_def)

lemma frame_pickupBotStep: 
  assumes f: "frame s0 s" shows "frame s0 (pickupBotStep p s k)"
  unfolding pickupBotStep_def Let_def
  apply (intro frame_if_weak frame_intros frame_pickups_upd f)
  apply (simp_all add: botOk_heal botOk_gain HEALTH_PICKUP_AMOUNT_def ENERGY_PICKUP_AMOUNT_def)
  done

lemma frame_pickupStep: "frame s0 s \<Longrightarrow> frame s0 (pickupStep s p)"
  unfolding pickupStep_def
  by (auto intro!: frame_foldl frame_pickupBotStep)

lemma frame_checkPickups: "frame s0 s \<Longrightarrow> frame s0 (checkPickups s)"
  unfolding checkPickups_def
  by (auto intro!: frame_foldl frame_pickupStep)

lemma frame_option_case:
  "frame s0 a \<Longrightarrow> (\<And>x. frame s0 (g x)) \<Longrightarrow> frame s0 (case opt of None \<Rightarrow> a | Some x \<Rightarrow> g x)"
  by (simp split: option.splits)

lemma frame_trapBotStep: 
  assumes f: "frame s0 s" shows "frame s0 (trapBotStep t s k)"
  unfolding trapBotStep_def Let_def
  apply (intro frame_if_weak frame_intros frame_option_case frame_traps_upd f)
  apply (simp_all add: botOk_def TRAP_DAMAGE_def)
  done

lemma frame_trapStep: "frame s0 s \<Longrightarrow> frame s0 (trapStep s t)"
  unfolding trapStep_def Let_def
  by (auto intro!: frame_foldl frame_trapBotStep frame_traps_upd)

lemma frame_checkTraps: "frame s0 s \<Longrightarrow> frame s0 (checkTraps s)"
  unfolding checkTraps_def
  by (auto intro!: frame_foldl frame_trapStep)

lemma frame_expireTraps: "frame s0 s \<Longrightarrow> frame s0 (expireTraps s)"
  unfolding expireTraps_def by (rule frame_traps_upd)

lemma frame_tickMoves:
  "frame (s\<lparr>events := [], tick := tick s + 1\<rparr>) (tickMoves acts s)"
  unfolding tickMoves_def Let_def clearEvents_def
  apply (intro frame_resolveBotCollision frame_foldl frame_physicsStep frame_applyActionStep)
  apply simp_all
  done

lemma tickResolve_preKO: "tickResolve rnd s = maxTickStage (checkKO (preKO rnd s))"
  by (simp add: tickResolve_def preKO_def Let_def)

lemma frame_preKO: "frame s (preKO rnd s)"
  unfolding preKO_def
  by (intro frame_expireTraps frame_checkTraps frame_checkPickups frame_trySpawnPickup
      frame_processProjectileHits frame_updateProjectiles frame_refl)

section \<open>The visibility update\<close>

lemma visibilityStep_keeps [simp]:
  "bots (visibilityStep s i) = bots s" "arenaConfig (visibilityStep s i) = arenaConfig s"
  "events (visibilityStep s i) = events s" "tick (visibilityStep s i) = tick s"
  "gameOver (visibilityStep s i) = gameOver s" "winner (visibilityStep s i) = winner s"
  "projectiles (visibilityStep s i) = projectiles s"
  by (simp_all add: visibilityStep_def Let_def)

lemma canSee_cong: "bots s' = bots s \<Longrightarrow> arenaConfig s' = arenaConfig s \<Longrightarrow> canSee s' i = canSee s i"
  by (simp add: canSee_def)

lemma updateVisibility_keeps [simp]:
  "bots (updateVisibility s) = bots s" "arenaConfig (updateVisibility s) = arenaConfig s"
  "events (updateVisibility s) = events s" "tick (updateVisibility s) = tick s"
  "gameOver (updateVisibility s) = gameOver s" "winner (updateVisibility s) = winner s"
  "projectiles (updateVisibility s) = projectiles s"
  by (simp_all add: updateVisibility_def upt_2)

lemma updateVisibility_result:
  assumes "length (enemyVisible s) = 2" "length (lastKnownEnemyPos s) = 2"
  shows "enemyVisible (updateVisibility s) = [canSee s 0, canSee s 1]"
    and "lastKnownEnemyPos (updateVisibility s) =
           [if canSee s 0 then position (bots s ! 1) else lastKnownEnemyPos s ! 0,
            if canSee s 1 then position (bots s ! 0) else lastKnownEnemyPos s ! 1]"
proof -
  obtain v0 v1 where v: "enemyVisible s = [v0, v1]"
    using assms(1) by (auto simp: length_Suc_conv numeral_2_eq_2)
  obtain p0 p1 where p: "lastKnownEnemyPos s = [p0, p1]"
    using assms(2) by (auto simp: length_Suc_conv numeral_2_eq_2)
  have c: "canSee (visibilityStep s 0) (Suc 0) = canSee s (Suc 0)"
    by (rule canSee_cong) simp_all
  show "enemyVisible (updateVisibility s) = [canSee s 0, canSee s 1]"
    using v p c by (simp add: updateVisibility_def upt_2 visibilityStep_def Let_def)
  show "lastKnownEnemyPos (updateVisibility s) =
           [if canSee s 0 then position (bots s ! 1) else lastKnownEnemyPos s ! 0,
            if canSee s 1 then position (bots s ! 0) else lastKnownEnemyPos s ! 1]"
    using v p c by (simp add: updateVisibility_def upt_2 visibilityStep_def Let_def)
qed

lemma sightEventStep_keeps [simp]:
  "bots (sightEventStep pv s i) = bots s" "arenaConfig (sightEventStep pv s i) = arenaConfig s"
  "tick (sightEventStep pv s i) = tick s"
  "gameOver (sightEventStep pv s i) = gameOver s" "winner (sightEventStep pv s i) = winner s"
  "projectiles (sightEventStep pv s i) = projectiles s"
  "enemyVisible (sightEventStep pv s i) = enemyVisible s"
  "lastKnownEnemyPos (sightEventStep pv s i) = lastKnownEnemyPos s"
  by (simp_all add: sightEventStep_def)

lemma sightEventStep_events:
  "events (sightEventStep pv s i) =
     events s @ expectedSightEvents (bots s) i (pv ! i) (enemyVisible s ! i)"
  by (simp add: sightEventStep_def expectedSightEvents_def)

lemma sightStage_keeps [simp]:
  "bots (sightStage s) = bots s" "arenaConfig (sightStage s) = arenaConfig s"
  "tick (sightStage s) = tick s"
  "gameOver (sightStage s) = gameOver s" "winner (sightStage s) = winner s"
  "projectiles (sightStage s) = projectiles s"
  by (simp_all add: sightStage_def Let_def upt_2)

lemma sightStage_result:
  assumes "length (enemyVisible s) = 2" "length (lastKnownEnemyPos s) = 2"
  shows "enemyVisible (sightStage s) = [canSee s 0, canSee s 1]"
    and "lastKnownEnemyPos (sightStage s) =
           [if canSee s 0 then position (bots s ! 1) else lastKnownEnemyPos s ! 0,
            if canSee s 1 then position (bots s ! 0) else lastKnownEnemyPos s ! 1]"
    and "events (sightStage s) = events s
           @ expectedSightEvents (bots s) 0 (enemyVisible s ! 0) (canSee s 0)
           @ expectedSightEvents (bots s) 1 (enemyVisible s ! 1) (canSee s 1)"
  using updateVisibility_result [OF assms]
  by (simp_all add: sightStage_def Let_def upt_2 sightEventStep_events)

lemma stateOk_sightStage: "stateOk (sightStage s) = stateOk s"
  by (simp add: stateOk_def)

lemma isSight_expected [simp]:
  "filter isSightEvent (expectedSightEvents bs i p q) = expectedSightEvents bs i p q"
  by (simp add: expectedSightEvents_def)

section \<open>The termination check\<close>

lemma foldl_invariant:
  assumes "P s" "\<And>s k. P s \<Longrightarrow> P (f s k)"
  shows "P (foldl f s ks)"
  using assms(1) by (induction ks arbitrary: s) (simp_all add: assms(2))

lemma koStep_keeps:
  "enemyVisible (koStep s k) = enemyVisible s" "lastKnownEnemyPos (koStep s k) = lastKnownEnemyPos s"
  "tick (koStep s k) = tick s" "arenaConfig (koStep s k) = arenaConfig s"
  "projectiles (koStep s k) = projectiles s"
  "filter isSightEvent (events (koStep s k)) = filter isSightEvent (events s)"
  "map bid (bots (koStep s k)) = map bid (bots s)"
  "map bname (bots (koStep s k)) = map bname (bots s)"
  "length (bots (koStep s k)) = length (bots s)"
  by (simp_all add: koStep_def Let_def map_update_same)

lemma checkKO_keeps:
  "enemyVisible (checkKO s) = enemyVisible s \<and> lastKnownEnemyPos (checkKO s) = lastKnownEnemyPos s
   \<and> tick (checkKO s) = tick s \<and> arenaConfig (checkKO s) = arenaConfig s
   \<and> projectiles (checkKO s) = projectiles s
   \<and> filter isSightEvent (events (checkKO s)) = filter isSightEvent (events s)
   \<and> map bid (bots (checkKO s)) = map bid (bots s)
   \<and> map bname (bots (checkKO s)) = map bname (bots s)
   \<and> length (bots (checkKO s)) = length (bots s)"
  unfolding checkKO_def
  by (rule foldl_invariant) (simp_all add: koStep_keeps)

lemma maxTickStage_keeps [simp]:
  "enemyVisible (maxTickStage s) = enemyVisible s" "lastKnownEnemyPos (maxTickStage s) = lastKnownEnemyPos s"
  "tick (maxTickStage s) = tick s" "arenaConfig (maxTickStage s) = arenaConfig s"
  "projectiles (maxTickStage s) = projectiles s"
  "events (maxTickStage s) = events s"
  "bots (maxTickStage s) = bots s"
  by (simp_all add: maxTickStage_def Let_def)

lemma koStep_botOk:
  "list_all botOk (bots s) \<Longrightarrow> list_all botOk (bots (koStep s k))"
proof -
  assume a: "list_all botOk (bots s)"
  have "set ((bots s)[k := (bots s ! k)\<lparr>hp := 0\<rparr>]) \<subseteq> insert ((bots s ! k)\<lparr>hp := 0\<rparr>) (set (bots s))"
    by (rule set_update_subset_insert)
  moreover have "k < length (bots s) \<Longrightarrow> botOk ((bots s ! k)\<lparr>hp := 0\<rparr>)"
    using a by (simp add: list_all_length botOk_def BOT_HP_def)
  ultimately show ?thesis
    using a
    by (cases "k < length (bots s)") (auto simp: koStep_def Let_def list_all_iff list_update_beyond)
qed

lemma checkKO_botOk: "list_all botOk (bots s) \<Longrightarrow> list_all botOk (bots (checkKO s))"
  unfolding checkKO_def
  by (rule foldl_invariant) (simp_all add: koStep_botOk)

lemma koStep_hp_other: "j \<noteq> k \<Longrightarrow> hp (bots (koStep s k) ! j) = hp (bots s ! j)"
  by (simp add: koStep_def Let_def)

lemma koStep_hp_same: "k < length (bots s) \<Longrightarrow> 0 \<le> hp (bots (koStep s k) ! k)"
  by (simp add: koStep_def Let_def)

lemma checkKO_prefix:
  "n \<le> length (bots s) \<Longrightarrow>
   length (bots (foldl koStep s [0..<n])) = length (bots s) \<and>
   (\<forall>j<n. 0 \<le> hp (bots (foldl koStep s [0..<n]) ! j))"
proof (induction n)
  case 0
  then show ?case by simp
next
  case (Suc n)
  let ?t = "foldl koStep s [0..<n]"
  from Suc have len: "length (bots ?t) = length (bots s)" and ih: "\<forall>j<n. 0 \<le> hp (bots ?t ! j)"
    by simp_all
  have n: "n < length (bots ?t)" using Suc.prems len by simp
  have "\<forall>j<Suc n. 0 \<le> hp (bots (koStep ?t n) ! j)"
  proof (intro allI impI)
    fix j assume "j < Suc n"
    then show "0 \<le> hp (bots (koStep ?t n) ! j)"
      using ih koStep_hp_same [OF n] koStep_hp_other [of j n ?t]
      by (cases "j = n") auto
  qed
  then show ?case
    using len by (simp add: koStep_keeps)
qed

lemma checkKO_hp_nonneg: "list_all (\<lambda>b. 0 \<le> hp b) (bots (checkKO s))"
  using checkKO_prefix [of "length (bots s)" s]
  by (simp add: checkKO_def list_all_length)

section \<open>Invariants of a whole tick (C5, C6, C8)\<close>

lemma GameLoop_tick_stages:
  "GameLoop_tick rnd acts s = maxTickStage (checkKO (preKO rnd (sightStage (tickMoves acts s))))"
  by (simp add: GameLoop_tick_def tickResolve_preKO)

lemma frameD:
  assumes "frame s s'"
  shows "map bid (bots s') = map bid (bots s)" "map bname (bots s') = map bname (bots s)"
    "tick s' = tick s" "arenaConfig s' = arenaConfig s" "enemyVisible s' = enemyVisible s"
    "lastKnownEnemyPos s' = lastKnownEnemyPos s" "gameOver s' = gameOver s" "winner s' = winner s"
    "filter isSightEvent (events s') = filter isSightEvent (events s)"
    "stateOk s \<Longrightarrow> stateOk s'" "length (bots s') = length (bots s)"
  using assms map_eq_imp_length_eq [of bid "bots s'" bid "bots s"]
  by (simp_all add: frame_def)

lemma stateOk_tickMoves: "stateOk s \<Longrightarrow> stateOk (tickMoves acts s)"
  using frameD(10) [OF frame_tickMoves [of s acts]] by (simp add: stateOk_def)

lemma stateOk_preKO: "stateOk s \<Longrightarrow> stateOk (preKO rnd s)"
  using frameD(10) [OF frame_preKO [of s rnd]] by simp

lemma stateOk_checkKO: "stateOk s \<Longrightarrow> stateOk (checkKO s)"
  using checkKO_botOk [of s] checkKO_keeps [of s] by (simp add: stateOk_def)

lemma stateOk_maxTickStage: "stateOk (maxTickStage s) = stateOk s"
  by (simp add: stateOk_def)

lemma stateOk_tick: "stateOk s \<Longrightarrow> stateOk (GameLoop_tick rnd acts s)"
  by (simp add: GameLoop_tick_stages stateOk_maxTickStage stateOk_checkKO stateOk_preKO
      stateOk_sightStage stateOk_tickMoves)

lemma hp_nonneg_tick: "list_all (\<lambda>b. 0 \<le> hp b) (bots (GameLoop_tick rnd acts s))"
  by (simp add: GameLoop_tick_stages checkKO_hp_nonneg)

lemma runTicks_ok:
  "stateOk (fst st) \<Longrightarrow> list_all (\<lambda>b. 0 \<le> hp b) (bots (fst st)) \<Longrightarrow>
   stateOk (fst (runTicks inputs st)) \<and> list_all (\<lambda>b. 0 \<le> hp b) (bots (fst (runTicks inputs st)))"
proof (induction inputs arbitrary: st)
  case Nil
  then show ?case by simp
next
  case (Cons d ds)
  show ?case
  proof (cases "gameOver (fst st)")
    case True
    with Cons.prems show ?thesis by simp
  next
    case False
    let ?s' = "GameLoop_tick (fst d) (snd d) (fst st)"
    have "stateOk ?s'" using Cons.prems(1) by (rule stateOk_tick)
    moreover have "list_all (\<lambda>b. 0 \<le> hp b) (bots ?s')" by (rule hp_nonneg_tick)
    ultimately show ?thesis
      using Cons.IH [of "(?s', snd st @ [events ?s'])"] False by (simp add: Let_def)
  qed
qed

lemma init_ok: "stateOk (init cfg n1 n2) \<and> list_all (\<lambda>b. 0 \<le> hp b) (bots (init cfg n1 n2))"
  by (simp add: init_def Let_def stateOk_def botOk_def createBot_def BOT_HP_def BOT_ENERGY_def)

text \<open>
  C5.  In the state published at the end of any tick of any match (any arena
  configuration, any decisions, any random draws), and in the initial state, every bot
  has \<open>0 \<le> hp \<le> BOT_HP\<close> and \<open>0 \<le> energy \<le> BOT_ENERGY\<close>.
\<close>

theorem hp_energy_in_range:
  "\<forall>b \<in> set (bots (fst (runMatch cfg bot1Name bot2Name inputs))).
     0 \<le> hp b \<and> hp b \<le> BOT_HP \<and> 0 \<le> energy b \<and> energy b \<le> BOT_ENERGY"
proof -
  let ?s = "fst (runMatch cfg bot1Name bot2Name inputs)"
  have "stateOk ?s \<and> list_all (\<lambda>b. 0 \<le> hp b) (bots ?s)"
    unfolding runMatch_def
    by (rule runTicks_ok) (simp_all add: init_ok)
  then show ?thesis
    by (simp add: stateOk_def list_all_iff botOk_def)
qed

text \<open>
  C6.  Take a tick of a running match that brings the tick counter to \<open>MAX_TICKS\<close> or
  beyond, and let \<open>r\<close> be the state handed to the knockout check of that tick.  If no
  bot is at hp \<open>\<le> 0\<close> there, the tick ends the match, leaves the bots as they are in
  \<open>r\<close>, declares the bot with the higher hp the winner, and declares no winner exactly
  when the two hp are equal.
\<close>

theorem max_tick_winner:
  assumes len: "length (bots s) = 2"
    and running: "\<not> gameOver s"
    and maxed: "MAX_TICKS \<le> tick s + 1"
    and r: "r = preKO rnd (sightStage (tickMoves acts s))"
    and alive: "0 < hp (bots r ! 0)" "0 < hp (bots r ! 1)"
  shows "gameOver (GameLoop_tick rnd acts s)
     \<and> bots (GameLoop_tick rnd acts s) = bots r
     \<and> winner (GameLoop_tick rnd acts s) =
         (if hp (bots r ! 0) > hp (bots r ! 1) then Some (bid (bots r ! 0))
          else if hp (bots r ! 1) > hp (bots r ! 0) then Some (bid (bots r ! 1))
          else None)
     \<and> (winner (GameLoop_tick rnd acts s) = None \<longleftrightarrow> hp (bots r ! 0) = hp (bots r ! 1))"
proof -
  let ?m = "tickMoves acts s"
  have fm: "frame (s\<lparr>events := [], tick := tick s + 1\<rparr>) ?m" by (rule frame_tickMoves)
  have fr: "frame (sightStage ?m) r" unfolding r by (rule frame_preKO)
  have g: "\<not> gameOver r" using frameD(7) [OF fr] frameD(7) [OF fm] running by simp
  have t: "tick r = tick s + 1" using frameD(3) [OF fr] frameD(3) [OF fm] by simp
  have l: "length (bots r) = 2" using frameD(11) [OF fr] frameD(11) [OF fm] len by simp
  obtain a b where ab: "bots r = [a, b]"
    using l by (auto simp: length_Suc_conv numeral_2_eq_2)
  have k: "checkKO r = r"
    using ab alive by (simp add: checkKO_def upt_2 koStep_def Let_def)
  have e: "GameLoop_tick rnd acts s = maxTickStage r"
    by (simp only: GameLoop_tick_stages r [symmetric] k)
  have c: "tick r \<ge> MAX_TICKS \<and> \<not> gameOver r" using g t maxed by simp
  show ?thesis
    unfolding e using c by (simp add: maxTickStage_def Let_def)
qed

lemma expected_names:
  assumes "map bname bs' = map bname bs" "length bs = 2" "i < 2"
  shows "expectedSightEvents bs' i p q = expectedSightEvents bs i p q"
proof -
  have l: "length bs' = 2" using assms(1,2) map_eq_imp_length_eq by fastforce
  have "bname (bs' ! k) = bname (bs ! k)" if "k < 2" for k
    using that assms(1,2) l by (metis nth_map)
  then have "bname (bs' ! i) = bname (bs ! i)" "bname (bs' ! (1 - i)) = bname (bs ! (1 - i))"
    using assms(3) by simp_all
  then show ?thesis by (simp add: expectedSightEvents_def)
qed

text \<open>
  C8.  The sight-transition events among the events of a tick are, for agent 0 and then
  agent 1, exactly the events expected for the change of that agent's \<open>canSee\<close> value
  from the previous tick (\<open>enemyVisible\<close> before the tick) to this one (\<open>enemyVisible\<close>
  after it): one \<open>lost_sight\<close> on true to false, one \<open>gained_sight\<close> on false to true,
  none otherwise.  The last-known-position entry of an agent is the enemy's position at
  the visibility update when the agent sees the enemy, and is left as it was otherwise.
\<close>

theorem sight_transitions:
  assumes "length (bots s) = 2" "length (enemyVisible s) = 2" "length (lastKnownEnemyPos s) = 2"
  shows "filter isSightEvent (events (GameLoop_tick rnd acts s)) =
           expectedSightEvents (bots s) 0 (enemyVisible s ! 0)
             (enemyVisible (GameLoop_tick rnd acts s) ! 0)
           @ expectedSightEvents (bots s) 1 (enemyVisible s ! 1)
               (enemyVisible (GameLoop_tick rnd acts s) ! 1)
     \<and> (\<forall>i<2. lastKnownEnemyPos (GameLoop_tick rnd acts s) ! i =
           (if enemyVisible (GameLoop_tick rnd acts s) ! i
            then position (bots (tickMoves acts s) ! (1 - i))
            else lastKnownEnemyPos s ! i))"
proof -
  let ?m = "tickMoves acts s"
  let ?v = "sightStage ?m"
  let ?r = "preKO rnd ?v"
  let ?s' = "GameLoop_tick rnd acts s"
  have fm: "frame (s\<lparr>events := [], tick := tick s + 1\<rparr>) ?m" by (rule frame_tickMoves)
  have fr: "frame ?v ?r" by (rule frame_preKO)
  have mv: "enemyVisible ?m = enemyVisible s" and ml: "lastKnownEnemyPos ?m = lastKnownEnemyPos s"
    and me: "filter isSightEvent (events ?m) = []" and mn: "map bname (bots ?m) = map bname (bots s)"
    using frameD [OF fm] by simp_all
  have lv: "length (enemyVisible ?m) = 2" and ll: "length (lastKnownEnemyPos ?m) = 2"
    using assms mv ml by simp_all
  note sr = sightStage_result [OF lv ll]
  have v': "enemyVisible ?s' = [canSee ?m 0, canSee ?m 1]"
    using checkKO_keeps [of ?r] frameD(5) [OF fr] sr(1) by (simp add: GameLoop_tick_stages)
  have l': "lastKnownEnemyPos ?s' = lastKnownEnemyPos ?v"
    using checkKO_keeps [of ?r] frameD(6) [OF fr] by (simp add: GameLoop_tick_stages)
  have e': "filter isSightEvent (events ?s') = filter isSightEvent (events ?v)"
    using checkKO_keeps [of ?r] frameD(9) [OF fr] by (simp add: GameLoop_tick_stages)
  have n0: "expectedSightEvents (bots ?m) 0 p q = expectedSightEvents (bots s) 0 p q" for p q
    using expected_names [OF mn assms(1), of 0] by simp
  have n1: "expectedSightEvents (bots ?m) (Suc 0) p q = expectedSightEvents (bots s) (Suc 0) p q" for p q
    using expected_names [OF mn assms(1), of "Suc 0"] by simp
  have ev: "filter isSightEvent (events ?s') =
           expectedSightEvents (bots s) 0 (enemyVisible s ! 0) (enemyVisible ?s' ! 0)
           @ expectedSightEvents (bots s) 1 (enemyVisible s ! 1) (enemyVisible ?s' ! 1)"
    by (simp add: e' sr(3) me v' n0 n1 mv)
  have ca: "\<forall>i<2. lastKnownEnemyPos ?s' ! i =
           (if enemyVisible ?s' ! i then position (bots ?m ! (1 - i)) else lastKnownEnemyPos s ! i)"
  proof (intro allI impI)
    fix i :: nat assume "i < 2"
    then have "i = 0 \<or> i = 1" by auto
    then show "lastKnownEnemyPos ?s' ! i =
           (if enemyVisible ?s' ! i then position (bots ?m ! (1 - i)) else lastKnownEnemyPos s ! i)"
      by (auto simp: l' sr(2) v' ml)
  qed
  from ev ca show ?thesis by (rule conjI)
qed

section \<open>Evaluating the stages of a tick\<close>

lemma sqrt_less_iff: "0 \<le> r \<Longrightarrow> sqrt a < r \<longleftrightarrow> a < r * r"
  using real_sqrt_less_iff [of a "r * r"] by (simp add: real_sqrt_mult)

lemma less_sqrt_iff: "0 \<le> r \<Longrightarrow> r < sqrt a \<longleftrightarrow> r * r < a"
  using real_sqrt_less_iff [of "r * r" a] by (simp add: real_sqrt_mult)

lemma sqrt_le_iff: "0 \<le> r \<Longrightarrow> sqrt a \<le> r \<longleftrightarrow> a \<le> r * r"
  using real_sqrt_le_iff [of a "r * r"] by (simp add: real_sqrt_mult)

lemma le_sqrt_iff: "0 \<le> r \<Longrightarrow> r \<le> sqrt a \<longleftrightarrow> r * r \<le> a"
  using real_sqrt_le_iff [of "r * r" a] by (simp add: real_sqrt_mult)

lemma sqrt_eq_numeral: "0 \<le> r \<Longrightarrow> a = r * r \<Longrightarrow> sqrt a = r"
  by (simp add: real_sqrt_mult)

lemmas sqrt_cmp = sqrt_less_iff less_sqrt_iff sqrt_le_iff le_sqrt_iff

lemma hmAt_flat: "hmAt [0, 0, 0, 0] k = 0"
proof -
  have "[0, 0, 0, 0::real] ! n = 0" if "n < 4" for n
    using that by (cases n rule: nat.exhaust; simp add: nth_Cons') 
  then show ?thesis by (simp add: hmAt_def)
qed

lemma flat_height [simp]: "sampleTerrainHeight flatTerrain wx wy = 0"
  by (simp add: sampleTerrainHeight_def flatTerrain_def Let_def hmAt_flat)

lemma flat_slope [simp]: "sampleTerrainSlope flatTerrain wx wy = 0"
  by (simp add: sampleTerrainSlope_def Let_def)

lemma halfFov_pos: "0 < cos (BOT_FOV * pi / 360)"
proof -
  have "BOT_FOV * pi / 360 = 4 * pi / 9" by (simp add: BOT_FOV_def)
  moreover have "0 < cos (4 * pi / 9)"
    by (rule cos_gt_zero_pi) (simp_all add: field_simps)
  ultimately show ?thesis by (simp only:)
qed

lemma inFov_eval:
  "isInFieldOfView fc from to BOT_FOV =
     (if length_v (sub to from) = 0 then True
      else cos (BOT_FOV * pi / 360)
             \<le> dot fc \<lparr>vx = vx (sub to from) / length_v (sub to from),
                         vy = vy (sub to from) / length_v (sub to from)\<rparr>)"
  by (simp add: isInFieldOfView_def Let_def)

lemma fov_ahead: "cos (BOT_FOV * pi / 360) \<le> 1"
  by (rule cos_le_one)

lemma fov_behind: "\<not> cos (BOT_FOV * pi / 360) \<le> - 1"
  using halfFov_pos by linarith

lemma applyMovement_still:
  "applyMovement b \<lparr>vx = 0, vy = 0\<rparr> tr =
     b\<lparr>momentum := (if attackCommit (status b) > 0 then 0 else momentum b * MOMENTUM_DECAY),
       velocity := \<lparr>vx = 0, vy = 0\<rparr>,
       position := \<lparr>vx = vx (position b), vy = vy (position b)\<rparr>\<rparr>"
  by (simp add: applyMovement_def Let_def)

lemma applyFacing_none: "applyFacing b \<lparr>vx = 0, vy = 0\<rparr> = b"
  by (simp add: applyFacing_def)


lemma rested_upkeep: "rested b \<Longrightarrow> upkeep t b = b"
  by (cases b) (simp add: rested_def upkeep_defs decPos_def constants_defs)

lemma rested_still: "rested b \<Longrightarrow> applyMovement b \<lparr>vx = 0, vy = 0\<rparr> (Some flatTerrain) = b"
  by (cases b) (simp add: rested_def applyMovement_still MOMENTUM_DECAY_def)

lemma rested_createBot [simp]: "rested (createBot i nm p)"
  by (simp add: rested_def createBot_def)

lemma updBot_id: "f (bots s ! i) = bots s ! i \<Longrightarrow> updBot i f s = s"
  by (simp add: updBot_def)

lemma applyActionStep_idle:
  assumes "rested (bots s ! i)" "arenaConfig s = Some c" "terrain c = flatTerrain"
  shows "applyActionStep idle s i = s"
proof -
  have 1: "updBot i (\<lambda>b. applyMovement b \<lparr>vx = 0, vy = 0\<rparr> (Some flatTerrain)) s = s"
    using assms(1) by (intro updBot_id) (simp add: rested_still)
  have 2: "updBot i (\<lambda>b. applyFacing b \<lparr>vx = 0, vy = 0\<rparr>) s = s"
    by (intro updBot_id) (simp add: applyFacing_none)
  have 3: "upkeepStage i s = s"
    using assms(1) by (simp add: upkeepStage_def Let_def rested_upkeep updBot_id rested_def)
  show ?thesis
    using assms(2,3) by (simp add: applyActionStep_def idle_def neutralAction_def Let_def 1 2 3)
qed

lemma createBot_fields [simp]:
  "bid (createBot i nm p) = i" "bname (createBot i nm p) = nm" "hp (createBot i nm p) = BOT_HP"
  "energy (createBot i nm p) = BOT_ENERGY" "position (createBot i nm p) = p"
  "facing (createBot i nm p) = \<lparr>vx = (if i = 0 then 1 else - 1), vy = 0\<rparr>"
  "velocity (createBot i nm p) = \<lparr>vx = 0, vy = 0\<rparr>"
  "cooldowns (createBot i nm p) = \<lparr>melee = 0, ranged = 0, special = 0, dash = 0, heal = 0, trap = 0\<rparr>"
  "status (createBot i nm p) = \<lparr>burning = 0, slowed = 0, shielded = False, attackCommit = 0\<rparr>"
  "lastCombatTick (createBot i nm p) = 0" "momentum (createBot i nm p) = 0"
  "isDefending (createBot i nm p) = False" "damageDealt (createBot i nm p) = 0"
  "damageTaken (createBot i nm p) = 0"
  by (simp_all add: createBot_def)

lemma clamp_inside:
  "\<bar>vx (position b)\<bar> \<le> 19 \<Longrightarrow> \<bar>vy (position b)\<bar> \<le> 19 \<Longrightarrow> clampToBounds b = b"
  by (cases b) (auto simp: clampToBounds_def Let_def ARENA_HALF_def ARENA_SIZE_def BOT_RADIUS_def)

lemma physicsStep_open:
  assumes "arenaConfig s = Some c" "obstacles c = []"
    "\<bar>vx (position (bots s ! i))\<bar> \<le> 19" "\<bar>vy (position (bots s ! i))\<bar> \<le> 19"
  shows "physicsStep s i = s"
  using assms
  by (simp add: physicsStep_def resolveObstacleCollision_def obstacleCircles_def clamp_inside updBot_id)

text \<open>Two rested bots, apart and inside the arena, on open flat ground.\<close>

lemma tickMoves_idle_calm:
  assumes b: "bots s = [a, b]" and r: "rested a" "rested b"
    and c: "arenaConfig s = Some c" "obstacles c = []" "terrain c = flatTerrain"
    and inside: "\<bar>vx (position a)\<bar> \<le> 19" "\<bar>vy (position a)\<bar> \<le> 19"
      "\<bar>vx (position b)\<bar> \<le> 19" "\<bar>vy (position b)\<bar> \<le> 19"
    and apart: "\<not> distance (position a) (position b) < 2"
  shows "tickMoves idle s = s\<lparr>events := [], tick := tick s + 1\<rparr>"
proof -
  define s2 where "s2 = s\<lparr>events := [], tick := tick s + 1\<rparr>"
  have e: "(s\<lparr>events := []\<rparr>)\<lparr>tick := tick (s\<lparr>events := []\<rparr>) + 1\<rparr> = s2"
    by (simp add: s2_def)
  have b2: "bots s2 = [a, b]" and c2: "arenaConfig s2 = Some c"
    using b c by (simp_all add: s2_def)
  have a0: "applyActionStep idle s2 0 = s2"
    by (rule applyActionStep_idle [where c = c]) (simp_all add: b2 c2 r c)
  have a1: "applyActionStep idle s2 (Suc 0) = s2"
    by (rule applyActionStep_idle [where c = c]) (simp_all add: b2 c2 r c)
  have p0: "physicsStep s2 0 = s2"
    by (rule physicsStep_open [where c = c]) (simp_all add: b2 c2 c inside)
  have p1: "physicsStep s2 (Suc 0) = s2"
    by (rule physicsStep_open [where c = c]) (simp_all add: b2 c2 c inside)
  have cl: "resolveBotCollision 0 (Suc 0) s2 = s2"
    using apart by (simp add: resolveBotCollision_def Let_def b2 BOT_RADIUS_def)
  show ?thesis
    unfolding tickMoves_def clearEvents_def Let_def e
    by (simp add: b2 upt_2 a0 a1 p0 p1 cl) (simp add: s2_def)
qed

lemma canSee_upd [simp]:
  "canSee (s\<lparr>enemyVisible := ev\<rparr>) i = canSee s i"
  "canSee (s\<lparr>lastKnownEnemyPos := lk\<rparr>) i = canSee s i"
  "canSee (s\<lparr>events := es\<rparr>) i = canSee s i"
  by (simp_all add: canSee_def)

lemma sightEventStep_eq:
  "sightEventStep pv s i =
     s\<lparr>events := events s @ expectedSightEvents (bots s) i (pv ! i) (enemyVisible s ! i)\<rparr>"
  by (simp add: sightEventStep_def expectedSightEvents_def pushEvent_def)

lemma sightStage_eq:
  assumes "enemyVisible s = [p, q]" "lastKnownEnemyPos s = [k0, k1]"
  shows "sightStage s =
     s\<lparr>lastKnownEnemyPos := [if canSee s 0 then position (bots s ! 1) else k0,
                              if canSee s 1 then position (bots s ! 0) else k1],
       enemyVisible := [canSee s 0, canSee s 1],
       events := events s @ expectedSightEvents (bots s) 0 p (canSee s 0)
                   @ expectedSightEvents (bots s) 1 q (canSee s 1)\<rparr>"
proof -
  have v0: "visibilityStep s 0 =
      s\<lparr>lastKnownEnemyPos := [if canSee s 0 then position (bots s ! 1) else k0, k1],
        enemyVisible := [canSee s 0, q]\<rparr>"
    using assms by (cases "canSee s 0") (simp_all add: visibilityStep_def Let_def)
  have v1: "visibilityStep (s\<lparr>lastKnownEnemyPos := [x0, k1], enemyVisible := [c0, q]\<rparr>) (Suc 0) =
      s\<lparr>lastKnownEnemyPos := [x0, if canSee s 1 then position (bots s ! 0) else k1],
        enemyVisible := [c0, canSee s 1]\<rparr>" for x0 c0
    by (cases "canSee s 1") (simp_all add: visibilityStep_def Let_def)
  have u: "updateVisibility s =
      s\<lparr>lastKnownEnemyPos := [if canSee s 0 then position (bots s ! 1) else k0,
                               if canSee s 1 then position (bots s ! 0) else k1],
        enemyVisible := [canSee s 0, canSee s 1]\<rparr>"
    by (simp add: updateVisibility_def upt_2 v0 v1)
  show ?thesis
    unfolding sightStage_def Let_def u
    using assms(1)
    by (simp add: upt_2 sightEventStep_eq)
qed


lemma canSee_open:
  assumes "arenaConfig s = Some c" "obstacles c = []"
  shows "canSee s i =
     isInFieldOfView (facing (bots s ! i)) (position (bots s ! i)) (position (bots s ! (1 - i))) BOT_FOV"
  using assms by (simp add: canSee_def Let_def hasLineOfSight_def obstacleCircles_def)

lemma processProjectileHits_none: "projectiles s = [] \<Longrightarrow> processProjectileHits s = s"
  by (simp add: processProjectileHits_def Let_def)

lemma checkTraps_none: "traps s = [] \<Longrightarrow> checkTraps s = s"
  by (simp add: checkTraps_def)

lemma expireTraps_none: "traps s = [] \<Longrightarrow> expireTraps s = s"
  by (simp add: expireTraps_def)

lemma pickupBotStep_traps [simp]: "traps (pickupBotStep p s k) = traps s"
  by (simp add: pickupBotStep_def Let_def)

lemma checkPickups_traps [simp]: "traps (checkPickups s) = traps s"
proof -
  have "traps (pickupStep s' p) = traps s'" for s' p
    unfolding pickupStep_def
    by (cases "pk_active (pickups s' ! p)") (simp_all add: foldl_invariant [where P = "\<lambda>u. traps u = traps s'"])
  then show ?thesis
    unfolding checkPickups_def
    by (intro foldl_invariant [where P = "\<lambda>u. traps u = traps s"]) simp_all
qed

lemma trySpawnPickup_traps [simp]: "traps (trySpawnPickup rnd s) = traps s"
  by (simp add: trySpawnPickup_def Let_def)

lemma preKO_calm:
  assumes "projectiles s = []" "traps s = []"
  shows "preKO rnd s = checkPickups (trySpawnPickup rnd s)"
proof -
  have 1: "s\<lparr>projectiles := updateProjectiles (projectiles s) (arenaConfig s)\<rparr> = s"
    using assms(1) by (simp add: updateProjectiles_def)
  show ?thesis
    unfolding preKO_def 1
    by (simp add: processProjectileHits_none assms checkTraps_none expireTraps_none)
qed

lemma checkPickups_none: "pickups s = [] \<Longrightarrow> checkPickups s = s"
  by (simp add: checkPickups_def)

lemma trySpawnPickup_off: "tick s mod PICKUP_INTERVAL \<noteq> 0 \<Longrightarrow> trySpawnPickup rnd s = s"
  by (simp add: trySpawnPickup_def)

lemma checkKO_alive:
  assumes "bots s = [a, b]" "0 < hp a" "0 < hp b"
  shows "checkKO s = s"
  using assms by (simp add: checkKO_def upt_2 koStep_def Let_def)

lemma maxTickStage_early: "tick s < MAX_TICKS \<Longrightarrow> maxTickStage s = s"
  by (simp add: maxTickStage_def)

section \<open>Idle ticks in the open arena\<close>

lemma openArena_fields [simp]:
  "obstacles openArena = []" "terrain openArena = flatTerrain"
  "spawnPoints openArena = (\<lparr>vx = - 3, vy = 0\<rparr>, \<lparr>vx = 3, vy = 0\<rparr>)"
  by (simp_all add: openArena_def vec2_def)

lemma arenaAt_eq:
  "arenaAt t ev =
     \<lparr>bots = [createBot 0 ''A'' \<lparr>vx = - 3, vy = 0\<rparr>, createBot (Suc 0) ''B'' \<lparr>vx = 3, vy = 0\<rparr>],
      projectiles = [], pickups = [], traps = [], tick = t, events = [],
      gameOver = False, winner = None, arenaConfig = Some openArena,
      lastKnownEnemyPos = [\<lparr>vx = 3, vy = 0\<rparr>, \<lparr>vx = - 3, vy = 0\<rparr>], enemyVisible = ev,
      nextProjectileId = 0, nextPickupId = 0, nextTrapId = 0\<rparr>"
  by (simp add: arenaAt_def arenaStart_def init_def Let_def)

lemma arenaStart_arenaAt: "arenaStart = arenaAt 0 [True, True]"
  by (simp add: arenaAt_eq arenaStart_def init_def Let_def)

lemma arenaAt_fields [simp]:
  "bots (arenaAt t ev) = [createBot 0 ''A'' \<lparr>vx = - 3, vy = 0\<rparr>, createBot (Suc 0) ''B'' \<lparr>vx = 3, vy = 0\<rparr>]"
  "projectiles (arenaAt t ev) = []" "pickups (arenaAt t ev) = []" "traps (arenaAt t ev) = []"
  "tick (arenaAt t ev) = t" "events (arenaAt t ev) = []" "gameOver (arenaAt t ev) = False"
  "winner (arenaAt t ev) = None" "arenaConfig (arenaAt t ev) = Some openArena"
  "lastKnownEnemyPos (arenaAt t ev) = [\<lparr>vx = 3, vy = 0\<rparr>, \<lparr>vx = - 3, vy = 0\<rparr>]"
  "enemyVisible (arenaAt t ev) = ev" "nextPickupId (arenaAt t ev) = 0"
  by (simp_all add: arenaAt_eq)

lemma tickMoves_idle_arena: "tickMoves idle (arenaAt t ev) = arenaAt (t + 1) ev"
proof -
  have "tickMoves idle (arenaAt t ev) = (arenaAt t ev)\<lparr>events := [], tick := tick (arenaAt t ev) + 1\<rparr>"
    by (rule tickMoves_idle_calm [where c = openArena
          and a = "createBot 0 ''A'' \<lparr>vx = - 3, vy = 0\<rparr>"
          and b = "createBot (Suc 0) ''B'' \<lparr>vx = 3, vy = 0\<rparr>"])
       (simp_all add: distance_def length_v_def sub_def sqrt_cmp)
  then show ?thesis by (simp add: arenaAt_eq)
qed

lemma canSee_arena [simp]: "canSee (arenaAt t ev) 0" "canSee (arenaAt t ev) (Suc 0)"
  by (simp_all add: canSee_open [where c = openArena] inFov_eval length_v_def sub_def dot_def
      fov_ahead sqrt_eq_numeral [of 6])

lemma sightStage_arena:
  "sightStage (arenaAt t [p, q]) =
     (arenaAt t [True, True])\<lparr>events :=
        expectedSightEvents (bots (arenaAt t [True, True])) 0 p True
        @ expectedSightEvents (bots (arenaAt t [True, True])) 1 q True\<rparr>"
proof -
  have "sightStage (arenaAt t [p, q]) =
      (arenaAt t [p, q])\<lparr>lastKnownEnemyPos := [\<lparr>vx = 3, vy = 0\<rparr>, \<lparr>vx = - 3, vy = 0\<rparr>],
        enemyVisible := [True, True],
        events := expectedSightEvents (bots (arenaAt t [p, q])) 0 p True
                   @ expectedSightEvents (bots (arenaAt t [p, q])) 1 q True\<rparr>"
    using sightStage_eq [of "arenaAt t [p, q]" p q "\<lparr>vx = 3, vy = 0\<rparr>" "\<lparr>vx = - 3, vy = 0\<rparr>"]
    by simp
  also have "\<dots> = (arenaAt t [True, True])\<lparr>events :=
        expectedSightEvents (bots (arenaAt t [True, True])) 0 p True
        @ expectedSightEvents (bots (arenaAt t [True, True])) 1 q True\<rparr>"
    by (simp add: arenaAt_eq)
  finally show ?thesis .
qed

lemma sightStage_arena_visible: "sightStage (arenaAt t [True, True]) = arenaAt t [True, True]"
  unfolding sightStage_arena by (simp add: expectedSightEvents_def arenaAt_eq)

lemma resolve_arena_quiet:
  assumes "t mod 100 \<noteq> 0" "t < 2400"
  shows "tickResolve rnd ((arenaAt t ev)\<lparr>events := es\<rparr>) = (arenaAt t ev)\<lparr>events := es\<rparr>"
proof -
  let ?s = "(arenaAt t ev)\<lparr>events := es\<rparr>"
  have 1: "preKO rnd ?s = ?s"
    using assms(1)
    by (simp add: preKO_calm trySpawnPickup_off checkPickups_none PICKUP_INTERVAL_def)
  have 2: "checkKO ?s = ?s"
    by (rule checkKO_alive [where a = "createBot 0 ''A'' \<lparr>vx = - 3, vy = 0\<rparr>"
          and b = "createBot (Suc 0) ''B'' \<lparr>vx = 3, vy = 0\<rparr>"]) (simp_all add: BOT_HP_def)
  have 3: "maxTickStage ?s = ?s"
    using assms(2) by (simp add: maxTickStage_early MAX_TICKS_def)
  show ?thesis by (simp only: tickResolve_preKO 1 2 3)
qed

lemma idle_tick_arena:
  assumes "(t + 1) mod 100 \<noteq> 0" "t + 1 < 2400"
  shows "GameLoop_tick rnd idle (arenaAt t [p, q]) =
     (arenaAt (t + 1) [True, True])\<lparr>events :=
        expectedSightEvents (bots (arenaAt (t + 1) [True, True])) 0 p True
        @ expectedSightEvents (bots (arenaAt (t + 1) [True, True])) 1 q True\<rparr>"
  by (simp only: GameLoop_tick_def tickMoves_idle_arena sightStage_arena resolve_arena_quiet [OF assms])

lemma idle_tick_arena_visible:
  assumes "(t + 1) mod 100 \<noteq> 0" "t + 1 < 2400"
  shows "GameLoop_tick rnd idle (arenaAt t [True, True]) = arenaAt (t + 1) [True, True]"
  unfolding idle_tick_arena [OF assms] by (simp add: expectedSightEvents_def arenaAt_eq)

section \<open>Trap requests at the cap (C9)\<close>

text \<open>
  C9.  When the acting bot already owns \<open>TRAP_MAX_PER_BOT\<close> active traps, the trap handler
  returns the state it was given: no energy is taken, no cooldown is set, no trap is
  placed and no event is pushed.  A tick's \<open>processAction\<close> with a trap request then does
  exactly what it does with no request at all.
\<close>

theorem trap_at_cap_is_noop:
  assumes cap: "TRAP_MAX_PER_BOT \<le>
      length (filter (\<lambda>t. tr_ownerId t = bid (bots s ! i) \<and> tr_active t) (traps s))"
    and i: "i < length (bots s)"
  shows "processTrap i s = s \<and> processAction i (Some Trap) s = processAction i None s"
proof
  show "processTrap i s = s"
    using cap by (simp add: processTrap_def Let_def)
next
  have tr: "traps (upkeepStage i s) = traps s"
    and b: "bid (bots (upkeepStage i s) ! i) = bid (bots s ! i)"
    using i by (simp_all add: upkeepStage_def Let_def)
  have "processTrap i (upkeepStage i s) = upkeepStage i s"
    using cap tr b by (simp add: processTrap_def Let_def)
  then show "processAction i (Some Trap) s = processAction i None s"
    by (simp add: processAction_def Let_def split: option.splits)
qed

theorem trap_at_cap_is_noop_witness:
  "length (filter (\<lambda>t. tr_ownerId t = bid (bots trapCapState ! 0) \<and> tr_active t)
      (traps trapCapState)) = 2
   \<and> trap (cooldowns (bots trapCapState ! 0)) = 0
   \<and> energy (bots trapCapState ! 0) = 100
   \<and> processTrap 0 trapCapState = trapCapState
   \<and> processAction 0 (Some Trap) trapCapState = processAction 0 None trapCapState"
  using trap_at_cap_is_noop [of trapCapState 0]
  by (simp add: trapCapState_def startState_defs TRAP_MAX_PER_BOT_def BOT_ENERGY_def)

section \<open>Simultaneous knockout (C10)\<close>

text \<open>
  C10.  When both bots are at hp \<open>\<le> 0\<close> at the knockout check of a tick, the termination
  stage (\<open>checkKO\<close> followed by the max-tick test) ends the match with bot 0 as winner,
  sets the hp of both to 0 and pushes one knockout event per bot, bot 0 first.
\<close>

theorem double_knockout:
  assumes "bots s = [a, b]" "bid a = 0" "bid b = 1" "hp a \<le> 0" "hp b \<le> 0"
  shows "gameOver (maxTickStage (checkKO s)) \<and>
         winner (maxTickStage (checkKO s)) = Some 0 \<and>
         map hp (bots (maxTickStage (checkKO s))) = [0, 0] \<and>
         events (maxTickStage (checkKO s)) = events s @
           [mkEvent ko None (Some 0) None None (bname a @ '' has been KNOCKED OUT!''),
            mkEvent ko None (Some 1) None None (bname b @ '' has been KNOCKED OUT!'')]"
  using assms
  by (simp add: checkKO_def upt_2 koStep_def Let_def maxTickStage_def)

theorem double_knockout_witness:
  "map hp (bots doubleKoState) = [- 3, 0] \<and>
   gameOver (maxTickStage (checkKO doubleKoState)) \<and>
   winner (maxTickStage (checkKO doubleKoState)) = Some 0 \<and>
   map hp (bots (maxTickStage (checkKO doubleKoState))) = [0, 0] \<and>
   events (maxTickStage (checkKO doubleKoState)) =
     [mkEvent ko None (Some 0) None None ''A has been KNOCKED OUT!'',
      mkEvent ko None (Some 1) None None ''B has been KNOCKED OUT!'']"
  using double_knockout [of doubleKoState "(bots startState ! 0)\<lparr>hp := - 3\<rparr>"
      "(bots startState ! 1)\<lparr>hp := 0\<rparr>"]
  by (simp add: doubleKoState_def startState_defs)

end
